theory Spec2Isabelle
  imports Main
begin

section \<open>Values exchanged with the platform\<close>

text \<open>
  A response body is parsed by \<^verbatim>\<open>json.loads\<close> into a Python value. Numbers are
  modelled as integers (no endpoint field read by the code is fractional), strings as
  byte strings, and a dict as an association list read with \<open>map_of\<close>.
\<close>

datatype json =
    JNull
  | JBool bool
  | JNum int
  | JStr string
  | JArr "json list"
  | JObj "(string \<times> json) list"

text \<open>The Python exceptions that can leave the modelled functions.\<close>

datatype error =
    KeyError
  | WebDriverException
  | TypeError
  | AttributeError
  | EmptyDataError

text \<open>Truthiness of a value, as \<^verbatim>\<open>if x\<close> and \<^verbatim>\<open>not x\<close> test it.\<close>

fun truthy :: "json \<Rightarrow> bool" where
  "truthy JNull = False"
| "truthy (JBool b) = b"
| "truthy (JNum n) = (n \<noteq> 0)"
| "truthy (JStr s) = (s \<noteq> [])"
| "truthy (JArr xs) = (xs \<noteq> [])"
| "truthy (JObj kvs) = (kvs \<noteq> [])"

text \<open>\<^verbatim>\<open>x == 0\<close>: in Python \<^verbatim>\<open>False == 0\<close> holds as well.\<close>

fun eq_zero :: "json \<Rightarrow> bool" where
  "eq_zero (JNum n) = (n = 0)"
| "eq_zero (JBool b) = (\<not> b)"
| "eq_zero _ = False"

section \<open>The endpoint table\<close>

definition HIDDEN_API_ENDPOINTS :: "(string \<times> string) list" where
  "HIDDEN_API_ENDPOINTS =
    [(''user_detail'', ''/api/user/detail/''),
     (''user_videos'', ''/api/post/item_list/''),
     (''user_liked'', ''/api/favorite/item_list/''),
     (''user_playlists'', ''/api/user/playlist''),
     (''hashtag_detail'', ''/api/challenge/detail/''),
     (''hashtag_videos'', ''/api/challenge/item_list/''),
     (''video_comments'', ''/api/comment/list/''),
     (''comment_replies'', ''/api/comment/list/reply/''),
     (''related_videos'', ''/api/related/item_list/''),
     (''trending'', ''/api/recommend/item_list/''),
     (''search_users'', ''/api/search/user/full/''),
     (''search_items'', ''/api/search/item/full/''),
     (''search_general'', ''/api/search/general/full/''),
     (''sound_detail'', ''/api/music/detail/''),
     (''sound_videos'', ''/api/music/item_list/''),
     (''playlist_detail'', ''/api/mix/detail/''),
     (''playlist_videos'', ''/api/mix/item_list/'')]"

definition known_endpoint :: "string \<Rightarrow> bool" where
  "known_endpoint key = (map_of HIDDEN_API_ENDPOINTS key \<noteq> None)"

definition expected_keys :: "string \<Rightarrow> string list" where
  "expected_keys key =
    (if key = ''user_detail'' then [''userInfo'']
     else if key = ''hashtag_detail'' then [''challengeInfo'']
     else if key = ''video_comments'' then [''comments'']
     else if key = ''search_users'' then [''user_list'']
     else if key = ''search_items'' then [''item_list'', ''itemList'', ''data'']
     else if key = ''search_general'' then [''data'', ''item_list'', ''itemList'']
     else if key = ''sound_detail'' then [''musicInfo'', ''music'']
     else if key = ''playlist_detail'' then [''mixInfo'', ''mix'']
     else [''itemList''])"

section \<open>The execution context during one call of \<^verbatim>\<open>fetch_api\<close>\<close>

text \<open>
  What the browser does is not decided by the program, so it is an input of the model.
  One attempt to fetch either raises inside the \<^verbatim>\<open>try\<close> block (reading the
  token, the script timeout, a malformed status prefix), or \<^verbatim>\<open>_do_fetch\<close>
  returns a body text; the body is paired with what \<^verbatim>\<open>json.loads\<close> makes of it
  (\<open>None\<close> when it raises \<^verbatim>\<open>JSONDecodeError\<close>). A transport error and a failed
  signature both end in a body text as well (the empty one, or whatever the unsigned
  request yields), as in the source.
\<close>

datatype attempt =
    Raised
  | Fetched string "json option"

text \<open>
  \<open>ready c i\<close>: the \<open>i\<close>-th probe for the signing capability found it (a probe that
  raises counts as not found, as the source's \<^verbatim>\<open>except: pass\<close> does);
  \<open>nav_ok c i\<close>: the navigation \<^verbatim>\<open>self.go\<close> after that probe returns rather than
  raises; \<open>attempt c a\<close>: the outcome of fetch attempt number \<open>a\<close>, counted from 1.
\<close>

record ctx =
  ready :: "nat \<Rightarrow> bool"
  nav_ok :: "nat \<Rightarrow> bool"
  attempt :: "nat \<Rightarrow> attempt"

section \<open>\<^verbatim>\<open>SeleniumDriverAPI.fetch_api\<close>\<close>

definition max_sign_attempts :: nat where
  "max_sign_attempts = 5"

definition max_retries :: nat where
  "max_retries = 5"

text \<open>
  The loop that waits for the signing capability: \<open>n\<close> iterations are left and \<open>i\<close> is
  the index of the next one. The navigation between two probes is not guarded by a
  \<^verbatim>\<open>try\<close>, so its exception leaves the function.
\<close>

fun wait_acrawler :: "ctx \<Rightarrow> nat \<Rightarrow> nat \<Rightarrow> error + bool" where
  "wait_acrawler c 0 i = Inr False"
| "wait_acrawler c (Suc n) i =
     (if ready c i then Inr True
      else if nav_ok c i then wait_acrawler c n (Suc i)
      else Inl WebDriverException)"

text \<open>\<^verbatim>\<open>data.get("statusCode") == 0 or any(k in data for k in _expected_keys(key))\<close>\<close>

definition accepted :: "string \<Rightarrow> (string \<times> json) list \<Rightarrow> bool" where
  "accepted key kvs =
     ((case map_of kvs ''statusCode'' of None \<Rightarrow> False | Some v \<Rightarrow> eq_zero v)
      \<or> (\<exists>k \<in> set (expected_keys key). map_of kvs k \<noteq> None))"

definition blocked :: "string \<Rightarrow> (string \<times> json) list \<Rightarrow> bool" where
  "blocked key kvs = (key = ''hashtag_videos'' \<and> map_of kvs ''statusCode'' = Some (JNum 100002))"

text \<open>
  The retry loop \<^verbatim>\<open>for attempt in range(1, max_retries + 1)\<close>: \<open>n\<close> iterations are
  left, \<open>a\<close> is the attempt number. The result is paired with the number of attempts
  made. Every way an attempt can fail that is not a block ends in the same
  \<^verbatim>\<open>if attempt < max_retries: ... continue\<close> followed by \<^verbatim>\<open>return None\<close>.
\<close>

fun attempts_from :: "string \<Rightarrow> ctx \<Rightarrow> nat \<Rightarrow> nat \<Rightarrow> json option \<times> nat" where
  "attempts_from key c 0 a = (None, a - 1)"
| "attempts_from key c (Suc n) a =
     (case attempt c a of
        Raised \<Rightarrow>
          (if a < max_retries then attempts_from key c n (Suc a) else (None, a))
      | Fetched body parsed \<Rightarrow>
          (if body = [] \<or> length body < 10 then
             (if a < max_retries then attempts_from key c n (Suc a) else (None, a))
           else
             (case parsed of
                None \<Rightarrow>
                  (if a < max_retries then attempts_from key c n (Suc a) else (None, a))
              | Some (JObj kvs) \<Rightarrow>
                  (if accepted key kvs then (Some (JObj kvs), a)
                   else if blocked key kvs then (None, a)
                   else if a < max_retries then attempts_from key c n (Suc a)
                   else (None, a))
              | Some _ \<Rightarrow>
                  (if a < max_retries then attempts_from key c n (Suc a) else (None, a)))))"

text \<open>
  The whole call. The lookup in the endpoint table comes first and raises
  \<^verbatim>\<open>KeyError\<close> for an unknown key; deriving the session parameters cannot raise
  (each query has its own \<^verbatim>\<open>try\<close>), and its effect on the memo is modelled with
  the client below.
\<close>

definition fetch_api_attempts :: "string \<Rightarrow> ctx \<Rightarrow> (error + json option) \<times> nat" where
  "fetch_api_attempts key c =
     (case map_of HIDDEN_API_ENDPOINTS key of
        None \<Rightarrow> (Inl KeyError, 0)
      | Some path \<Rightarrow>
          (case wait_acrawler c max_sign_attempts 0 of
             Inl e \<Rightarrow> (Inl e, 0)
           | Inr False \<Rightarrow> (Inr None, 0)
           | Inr True \<Rightarrow>
               (case attempts_from key c max_retries 1 of (r, k) \<Rightarrow> (Inr r, k))))"

definition fetch_api :: "string \<Rightarrow> ctx \<Rightarrow> error + json option" where
  "fetch_api key c = fst (fetch_api_attempts key c)"

section \<open>Python helpers\<close>

text \<open>
  A call either returns, raises, or is still running when the recorded behaviour of the
  execution context ends (\<open>Pending\<close>): the loops below consume one recorded context per
  call of \<^verbatim>\<open>fetch_api\<close>, so \<open>Pending\<close> is the model's way of not returning.
\<close>

datatype 'a outcome = Returns 'a | Raises error | Pending

text \<open>Iterating a value in a \<^verbatim>\<open>for\<close> loop: a string yields its characters, a dict its keys.\<close>

fun py_iter :: "json \<Rightarrow> error + json list" where
  "py_iter (JArr xs) = Inr xs"
| "py_iter (JStr s) = Inr (map (\<lambda>c. JStr [c]) s)"
| "py_iter (JObj kvs) = Inr (map (\<lambda>kv. JStr (fst kv)) kvs)"
| "py_iter _ = Inl TypeError"

text \<open>\<^verbatim>\<open>resp if resp else None\<close>: what \<^verbatim>\<open>if not resp\<close> lets through.\<close>

definition live :: "json option \<Rightarrow> json option" where
  "live r = (case r of None \<Rightarrow> None | Some v \<Rightarrow> if truthy v then Some v else None)"

text \<open>\<^verbatim>\<open>d.get(k, default)\<close> on a dict.\<close>

definition dict_get :: "(string \<times> json) list \<Rightarrow> string \<Rightarrow> json \<Rightarrow> json" where
  "dict_get kvs k d = (case map_of kvs k of None \<Rightarrow> d | Some v \<Rightarrow> v)"

text \<open>\<^verbatim>\<open>xs[:n]\<close>, also for a negative \<open>n\<close>.\<close>

definition slice_to :: "'a list \<Rightarrow> int \<Rightarrow> 'a list" where
  "slice_to xs n = (if 0 \<le> n then take (nat n) xs else take (length xs - nat (- n)) xs)"

text \<open>\<^verbatim>\<open>_safe(obj, *keys, default)\<close>\<close>

fun safe_get :: "json \<Rightarrow> string list \<Rightarrow> json \<Rightarrow> json" where
  "safe_get obj [] d = (if obj = JNull then d else obj)"
| "safe_get obj (k # ks) d =
     (case obj of
        JObj kvs \<Rightarrow> safe_get (dict_get kvs k JNull) ks d
      | _ \<Rightarrow> d)"

text \<open>
  A string is a list of code points below 256. Whitespace is what \<^verbatim>\<open>str.strip\<close>
  and the pattern \<^verbatim>\<open>\s\<close> take for it in that range: the controls 9 to 13 and
  28 to 31, the space, and the code points 0x85 and 0xA0.
\<close>

definition is_space :: "char \<Rightarrow> bool" where
  "is_space c = (c \<in> set [CHR '' '', CHR 0x09, CHR 0x0A, CHR 0x0B, CHR 0x0C, CHR 0x0D,
                           CHR 0x1C, CHR 0x1D, CHR 0x1E, CHR 0x1F, CHR 0x85, CHR 0xA0])"

definition strip :: "string \<Rightarrow> string" where
  "strip s = rev (dropWhile is_space (rev (dropWhile is_space s)))"

definition lstrip_char :: "char \<Rightarrow> string \<Rightarrow> string" where
  "lstrip_char c s = dropWhile (\<lambda>x. x = c) s"

text \<open>\<^verbatim>\<open>(username or "").strip().lstrip("@").strip()\<close> and the same with \<^verbatim>\<open>#\<close>.\<close>

definition norm_username :: "string \<Rightarrow> string" where
  "norm_username u = strip (lstrip_char (CHR ''@'') (strip u))"

definition norm_hashtag :: "string \<Rightarrow> string" where
  "norm_hashtag h = strip (lstrip_char (CHR ''#'') (strip h))"

text \<open>
  \<^verbatim>\<open>re.search(r"(?<=/video/)([0-9]+)", s)\<close>: the leftmost place that follows
  \<^verbatim>\<open>/video/\<close> and starts with a digit, and the whole run of digits from there.
\<close>

definition is_digit :: "char \<Rightarrow> bool" where
  "is_digit c = (c \<in> set ''0123456789'')"

fun find_video_id :: "string \<Rightarrow> string option" where
  "find_video_id [] = None"
| "find_video_id (c # s) =
     (if take 7 (c # s) = ''/video/'' \<and> takeWhile is_digit (drop 7 (c # s)) \<noteq> []
      then Some (takeWhile is_digit (drop 7 (c # s)))
      else find_video_id s)"

text \<open>\<^verbatim>\<open>vid = m.group(1) if m else str(video_id)\<close>\<close>

definition video_id_of :: "string \<Rightarrow> string" where
  "video_id_of video_id = (case find_video_id video_id of Some d \<Rightarrow> d | None \<Rightarrow> video_id)"

section \<open>The client: \<^verbatim>\<open>PyktokAPI\<close> with its driver and the files it writes\<close>

text \<open>
  A cell of a data frame is either an integer or a text: identifiers arrive from the
  platform as either, and a column of integer numerals read from a file is a column of
  integers. A row of a frame maps column names to cells. A file holds text: a row of a
  file maps column names to the text written there. A file either has no columns at
  all (what writing the empty frame leaves; reading it back raises
  \<^verbatim>\<open>EmptyDataError\<close>) or is a table of such rows.
\<close>

datatype cell = IntCell int | StrCell string

type_synonym row = "string \<Rightarrow> cell"

type_synonym text_row = "string \<Rightarrow> string"

datatype csv = NoColumns | Table "text_row list"

text \<open>
  \<open>memo\<close>: the driver's \<^verbatim>\<open>_hidden_api_session_params\<close> is set; \<open>derived\<close>: how often
  the parameters have been derived; \<open>last_ok\<close>: the cache \<^verbatim>\<open>_last_ok\<close>; \<open>files\<close>: the
  files on disk by path; \<open>calls\<close>: the calls of \<^verbatim>\<open>fetch_api\<close> made so far, oldest
  first, each with its endpoint key and parameters (a record of what happened, which
  the program itself never reads).
\<close>

record client =
  memo :: bool
  derived :: nat
  last_ok :: "string \<Rightarrow> json option"
  files :: "string \<Rightarrow> csv option"
  calls :: "(string \<times> (string \<times> json) list) list"

definition cache_set :: "string \<Rightarrow> json option \<Rightarrow> client \<Rightarrow> client" where
  "cache_set key v st =
     (case v of
        None \<Rightarrow> st
      | Some (JArr []) \<Rightarrow> st
      | Some (JObj []) \<Rightarrow> st
      | Some x \<Rightarrow> st\<lparr>last_ok := (last_ok st)(key \<mapsto> x)\<rparr>)"

definition cache_get :: "string \<Rightarrow> json \<Rightarrow> client \<Rightarrow> json" where
  "cache_get key d st = (case last_ok st key of None \<Rightarrow> d | Some v \<Rightarrow> v)"

text \<open>
  The effect of entering \<^verbatim>\<open>fetch_api\<close> on the client: a known key gets as far as
  \<^verbatim>\<open>_ensure_hidden_api_session_params\<close>, which derives the parameters when the memo
  is unset.
\<close>

definition note_call :: "string \<Rightarrow> (string \<times> json) list \<Rightarrow> client \<Rightarrow> client" where
  "note_call key params st =
     (if known_endpoint key
      then st\<lparr>memo := True,
              derived := (if memo st then derived st else Suc (derived st)),
              calls := calls st @ [(key, params)]\<rparr>
      else st\<lparr>calls := calls st @ [(key, params)]\<rparr>)"

text \<open>\<^verbatim>\<open>drv._hidden_api_session_params = None\<close>\<close>

definition invalidate :: "client \<Rightarrow> client" where
  "invalidate st = st\<lparr>memo := False\<rparr>"

text \<open>One call of \<^verbatim>\<open>drv.fetch_api\<close>, which uses up the next recorded context.\<close>

fun drv_fetch_api ::
  "string \<Rightarrow> (string \<times> json) list \<Rightarrow> ctx list \<Rightarrow> client
     \<Rightarrow> json option outcome \<times> ctx list \<times> client" where
  "drv_fetch_api key params [] st = (Pending, [], st)"
| "drv_fetch_api key params (c # cs) st =
     (case fetch_api key c of
        Inl e \<Rightarrow> (Raises e, cs, note_call key params st)
      | Inr r \<Rightarrow> (Returns r, cs, note_call key params st))"

text \<open>
  What a page yields: the items of its list field, the continuation flag and the next
  cursor. A page that is not a dict raises at the first \<^verbatim>\<open>resp.get\<close>, a list field
  that cannot be iterated raises at the \<^verbatim>\<open>for\<close>.
\<close>

definition read_page :: "string \<Rightarrow> string \<Rightarrow> json \<Rightarrow> error + (json list \<times> bool \<times> json)" where
  "read_page list_field more_field resp =
     (case resp of
        JObj kvs \<Rightarrow>
          (case py_iter (dict_get kvs list_field (JArr [])) of
             Inl e \<Rightarrow> Inl e
           | Inr items \<Rightarrow>
               Inr (items, truthy (dict_get kvs more_field (JBool False)),
                    dict_get kvs ''cursor'' (JNum 0)))
      | _ \<Rightarrow> Inl AttributeError)"

text \<open>
  The inner loop \<^verbatim>\<open>for item in ...: videos.append(item); if len(videos) >= count: break\<close>
\<close>

fun append_items :: "json list \<Rightarrow> json list \<Rightarrow> int \<Rightarrow> json list" where
  "append_items videos [] count = videos"
| "append_items videos (item # items) count =
     (if count \<le> int (length (videos @ [item])) then videos @ [item]
      else append_items (videos @ [item]) items count)"

text \<open>A call of \<^verbatim>\<open>fetch_api\<close> that its caller treats as failed: \<^verbatim>\<open>not resp\<close>.\<close>

definition call_fails :: "string \<Rightarrow> ctx \<Rightarrow> bool" where
  "call_fails key c = (case fetch_api key c of Inl e \<Rightarrow> False | Inr r \<Rightarrow> live r = None)"

section \<open>The paginated listing calls\<close>

text \<open>
  The loops of \<^verbatim>\<open>get_video_comments\<close>, \<^verbatim>\<open>get_sound_videos\<close> and
  \<^verbatim>\<open>get_playlist_videos\<close> are the same text up to the endpoint key, the
  parameters, the list field and the flag field:
  \<^verbatim>\<open>while len(videos) < count: resp = drv.fetch_api(...); if not resp: break ...\<close>.
  The result says whether the loop ended on a failed call.
\<close>

fun listing_loop ::
  "string \<Rightarrow> (json \<Rightarrow> (string \<times> json) list) \<Rightarrow> string \<Rightarrow> string \<Rightarrow> int
     \<Rightarrow> json list \<Rightarrow> json \<Rightarrow> ctx list \<Rightarrow> client
     \<Rightarrow> (json list \<times> bool) outcome \<times> ctx list \<times> client" where
  "listing_loop key params list_field more_field count videos cursor [] st =
     (if int (length videos) < count then (Pending, [], st)
      else (Returns (videos, False), [], st))"
| "listing_loop key params list_field more_field count videos cursor (c # cs) st =
     (if int (length videos) < count then
        (case fetch_api key c of
           Inl e \<Rightarrow> (Raises e, cs, note_call key (params cursor) st)
         | Inr resp \<Rightarrow>
             (case live resp of
                None \<Rightarrow> (Returns (videos, True), cs, note_call key (params cursor) st)
              | Some page \<Rightarrow>
                  (case read_page list_field more_field page of
                     Inl e \<Rightarrow> (Raises e, cs, note_call key (params cursor) st)
                   | Inr (items, has_more, next_cursor) \<Rightarrow>
                       (if \<not> has_more then
                          (Returns (append_items videos items count, False), cs,
                           note_call key (params cursor) st)
                        else
                          listing_loop key params list_field more_field count
                            (append_items videos items count) next_cursor cs
                            (note_call key (params cursor) st)))))
      else (Returns (videos, False), c # cs, st))"

definition get_sound_videos ::
  "string \<Rightarrow> int \<Rightarrow> ctx list \<Rightarrow> client \<Rightarrow> json list outcome \<times> ctx list \<times> client" where
  "get_sound_videos sound_id count cs st =
     (case listing_loop ''sound_videos''
             (\<lambda>cursor. [(''musicID'', JStr sound_id), (''count'', JNum 30), (''cursor'', cursor)])
             ''itemList'' ''hasMore'' count [] (JNum 0) cs st of
        (Returns (videos, failed), cs', st') \<Rightarrow>
          (Returns (slice_to videos count), cs',
           cache_set (''sound_videos:'' @ sound_id) (Some (JArr (slice_to videos count))) st')
      | (Raises e, cs', st') \<Rightarrow> (Raises e, cs', st')
      | (Pending, cs', st') \<Rightarrow> (Pending, cs', st'))"

definition get_playlist_videos ::
  "string \<Rightarrow> int \<Rightarrow> ctx list \<Rightarrow> client \<Rightarrow> json list outcome \<times> ctx list \<times> client" where
  "get_playlist_videos playlist_id count cs st =
     (case listing_loop ''playlist_videos''
             (\<lambda>cursor. [(''mixId'', JStr playlist_id), (''count'', JNum 30), (''cursor'', cursor)])
             ''itemList'' ''hasMore'' count [] (JNum 0) cs st of
        (Returns (videos, failed), cs', st') \<Rightarrow>
          (Returns (slice_to videos count), cs',
           cache_set (''playlist_videos:'' @ playlist_id)
             (Some (JArr (slice_to videos count))) st')
      | (Raises e, cs', st') \<Rightarrow> (Raises e, cs', st')
      | (Pending, cs', st') \<Rightarrow> (Pending, cs', st'))"

text \<open>
  \<^verbatim>\<open>get_video_comments\<close> returns from inside the loop on a failed call, so the
  partial list is not cached then.
\<close>

definition get_video_comments ::
  "string \<Rightarrow> int \<Rightarrow> ctx list \<Rightarrow> client \<Rightarrow> json list outcome \<times> ctx list \<times> client" where
  "get_video_comments video_id count cs st =
     (case listing_loop ''video_comments''
             (\<lambda>cursor. [(''aweme_id'', JStr (video_id_of video_id)), (''count'', JNum 20),
                        (''cursor'', cursor)])
             ''comments'' ''has_more'' count [] (JNum 0) cs st of
        (Returns (comments, failed), cs', st') \<Rightarrow>
          (if failed then (Returns (slice_to comments count), cs', st')
           else
             (Returns (slice_to comments count), cs',
              cache_set (''video_comments:'' @ video_id_of video_id)
                (Some (JArr (slice_to comments count))) st'))
      | (Raises e, cs', st') \<Rightarrow> (Raises e, cs', st')
      | (Pending, cs', st') \<Rightarrow> (Pending, cs', st'))"

subsection \<open>\<^verbatim>\<open>search_videos\<close>, the stand-in for a blocked hashtag listing\<close>

definition is_obj :: "json \<Rightarrow> bool" where
  "is_obj v = (case v of JObj kvs \<Rightarrow> True | _ \<Rightarrow> False)"

text \<open>\<^verbatim>\<open>resp.get(k, []) if isinstance(resp.get(k), list) else []\<close>, keeping the dicts.\<close>

definition dict_items_of :: "(string \<times> json) list \<Rightarrow> string \<Rightarrow> json list" where
  "dict_items_of kvs k =
     (case map_of kvs k of Some (JArr xs) \<Rightarrow> filter is_obj xs | _ \<Rightarrow> [])"

text \<open>One entry of the \<^verbatim>\<open>data\<close> list: the dict it carries, if any.\<close>

definition entry_candidate :: "json \<Rightarrow> json list" where
  "entry_candidate entry =
     (case entry of
        JObj kvs \<Rightarrow>
          (if is_obj (dict_get kvs ''item'' JNull) then [dict_get kvs ''item'' JNull]
           else
             (let candidate =
                (if truthy (dict_get kvs ''item_info'' JNull) then dict_get kvs ''item_info'' JNull
                 else dict_get kvs ''itemInfo'' JNull)
              in if is_obj candidate then [candidate] else []))
      | _ \<Rightarrow> [])"

definition extract_videos :: "json \<Rightarrow> error + json list" where
  "extract_videos resp =
     (case resp of
        JObj kvs \<Rightarrow>
          Inr (dict_items_of kvs ''item_list'' @ dict_items_of kvs ''itemList'' @
               (case dict_get kvs ''data'' (JArr []) of
                  JArr entries \<Rightarrow> concat (map entry_candidate entries)
                | _ \<Rightarrow> []))
      | _ \<Rightarrow> Inl AttributeError)"

definition web_search_code :: string where
  "web_search_code =
     ''{'' @ [CHR 0x22] @ ''tiktok'' @ [CHR 0x22] @ '':{'' @ [CHR 0x22] @ ''client_params_x'' @
     [CHR 0x22] @ '':{'' @ [CHR 0x22] @ ''search_engine'' @ [CHR 0x22] @ '':{'' @ [CHR 0x22] @
     ''ies_mt_user_live_video_card_use_libra'' @ [CHR 0x22] @ '':1,'' @ [CHR 0x22] @
     ''mt_search_general_user_live_card'' @ [CHR 0x22] @ '':1}},'' @ [CHR 0x22] @
     ''search_server'' @ [CHR 0x22] @ '':{}}}''"

definition search_params :: "string \<Rightarrow> json \<Rightarrow> (string \<times> json) list" where
  "search_params keyword cursor =
     [(''keyword'', JStr keyword), (''cursor'', cursor), (''from_page'', JStr ''search''),
      (''web_search_code'', JStr web_search_code)]"

fun search_loop ::
  "string \<Rightarrow> int \<Rightarrow> json list \<Rightarrow> json \<Rightarrow> ctx list \<Rightarrow> client
     \<Rightarrow> json list outcome \<times> ctx list \<times> client" where
  "search_loop keyword count videos cursor [] st =
     (if int (length videos) < count then (Pending, [], st) else (Returns videos, [], st))"
| "search_loop keyword count videos cursor (c # cs) st =
     (if int (length videos) < count then
        (case fetch_api ''search_general'' c of
           Inl e \<Rightarrow> (Raises e, cs, note_call ''search_general'' (search_params keyword cursor) st)
         | Inr resp \<Rightarrow>
             (case live resp of
                None \<Rightarrow>
                  (Returns videos, cs, note_call ''search_general'' (search_params keyword cursor) st)
              | Some page \<Rightarrow>
                  (case extract_videos page of
                     Inl e \<Rightarrow>
                       (Raises e, cs,
                        note_call ''search_general'' (search_params keyword cursor) st)
                   | Inr items \<Rightarrow>
                       (if items = [] then
                          (Returns videos, cs,
                           note_call ''search_general'' (search_params keyword cursor) st)
                        else
                          (case page of
                             JObj kvs \<Rightarrow>
                               (if \<not> truthy (dict_get kvs ''has_more'' (JBool False)) then
                                  (Returns (append_items videos items count), cs,
                                   note_call ''search_general'' (search_params keyword cursor) st)
                                else
                                  search_loop keyword count (append_items videos items count)
                                    (dict_get kvs ''cursor'' (JNum 0)) cs
                                    (note_call ''search_general''
                                       (search_params keyword cursor) st))
                           | _ \<Rightarrow>
                               (Raises AttributeError, cs,
                                note_call ''search_general''
                                  (search_params keyword cursor) st))))))
      else (Returns videos, c # cs, st))"

definition search_videos ::
  "string \<Rightarrow> int \<Rightarrow> ctx list \<Rightarrow> client \<Rightarrow> json list outcome \<times> ctx list \<times> client" where
  "search_videos keyword count cs st =
     (case search_loop keyword count [] (JNum 0) cs st of
        (Returns videos, cs', st') \<Rightarrow>
          (Returns (slice_to videos count), cs',
           cache_set (''search_videos:'' @ keyword) (Some (JArr (slice_to videos count))) st')
      | (Raises e, cs', st') \<Rightarrow> (Raises e, cs', st')
      | (Pending, cs', st') \<Rightarrow> (Pending, cs', st'))"

subsection \<open>\<^verbatim>\<open>get_user_info\<close> and \<^verbatim>\<open>get_user_videos\<close>\<close>

text \<open>The warm-up navigation before the call is inside \<^verbatim>\<open>try\<close> and changes nothing here.\<close>

definition get_user_info ::
  "string \<Rightarrow> ctx list \<Rightarrow> client \<Rightarrow> json option outcome \<times> ctx list \<times> client" where
  "get_user_info username cs st =
     (case drv_fetch_api ''user_detail''
             [(''uniqueId'', JStr (norm_username username)), (''secUid'', JStr '''')] cs st of
        (Returns out, cs', st') \<Rightarrow>
          (Returns out, cs', cache_set (''user_detail:'' @ norm_username username) out st')
      | (Raises e, cs', st') \<Rightarrow> (Raises e, cs', st')
      | (Pending, cs', st') \<Rightarrow> (Pending, cs', st'))"

definition max_consecutive_failures :: nat where
  "max_consecutive_failures = 4"

definition user_videos_params :: "json \<Rightarrow> json \<Rightarrow> (string \<times> json) list" where
  "user_videos_params sec_uid cursor =
     [(''secUid'', sec_uid), (''count'', JNum 35), (''cursor'', cursor)]"

text \<open>
  The loop of \<^verbatim>\<open>get_user_videos\<close>; \<open>fails\<close> is \<^verbatim>\<open>consecutive_failures\<close>. A failed
  call that does not reach the cap unsets the memoized session parameters and repeats
  the call with the same cursor. The result says whether the loop ended at the cap
  (where the source returns without caching).
\<close>

fun user_videos_loop ::
  "json \<Rightarrow> int \<Rightarrow> json list \<Rightarrow> json \<Rightarrow> nat \<Rightarrow> ctx list \<Rightarrow> client
     \<Rightarrow> (json list \<times> bool) outcome \<times> ctx list \<times> client" where
  "user_videos_loop sec_uid count videos cursor fails [] st =
     (if int (length videos) < count then (Pending, [], st)
      else (Returns (videos, False), [], st))"
| "user_videos_loop sec_uid count videos cursor fails (c # cs) st =
     (if int (length videos) < count then
        (case fetch_api ''user_videos'' c of
           Inl e \<Rightarrow> (Raises e, cs, note_call ''user_videos'' (user_videos_params sec_uid cursor) st)
         | Inr resp \<Rightarrow>
             (case live resp of
                None \<Rightarrow>
                  (if max_consecutive_failures \<le> Suc fails then
                     (Returns (videos, True), cs,
                      note_call ''user_videos'' (user_videos_params sec_uid cursor) st)
                   else
                     user_videos_loop sec_uid count videos cursor (Suc fails) cs
                       (invalidate
                          (note_call ''user_videos'' (user_videos_params sec_uid cursor) st)))
              | Some page \<Rightarrow>
                  (case read_page ''itemList'' ''hasMore'' page of
                     Inl e \<Rightarrow>
                       (Raises e, cs,
                        note_call ''user_videos'' (user_videos_params sec_uid cursor) st)
                   | Inr (items, has_more, next_cursor) \<Rightarrow>
                       (if \<not> has_more then
                          (Returns (append_items videos items count, False), cs,
                           note_call ''user_videos'' (user_videos_params sec_uid cursor) st)
                        else
                          user_videos_loop sec_uid count (append_items videos items count)
                            next_cursor 0 cs
                            (note_call ''user_videos''
                               (user_videos_params sec_uid cursor) st)))))
      else (Returns (videos, False), c # cs, st))"

definition get_user_videos ::
  "string \<Rightarrow> int \<Rightarrow> ctx list \<Rightarrow> client \<Rightarrow> json list outcome \<times> ctx list \<times> client" where
  "get_user_videos username count cs st =
     (case get_user_info (norm_username username) cs st of
        (Raises e, cs1, st1) \<Rightarrow> (Raises e, cs1, st1)
      | (Pending, cs1, st1) \<Rightarrow> (Pending, cs1, st1)
      | (Returns user_resp, cs1, st1) \<Rightarrow>
          (case live user_resp of
             None \<Rightarrow> (Returns [], cs1, st1)
           | Some info \<Rightarrow>
               (if \<not> truthy (safe_get info [''userInfo'', ''user'', ''secUid''] (JStr ''''))
                then (Returns [], cs1, st1)
                else
                  (case user_videos_loop
                          (safe_get info [''userInfo'', ''user'', ''secUid''] (JStr ''''))
                          count [] (JNum 0) 0 cs1 st1 of
                     (Raises e, cs2, st2) \<Rightarrow> (Raises e, cs2, st2)
                   | (Pending, cs2, st2) \<Rightarrow> (Pending, cs2, st2)
                   | (Returns (videos, capped), cs2, st2) \<Rightarrow>
                       (if capped then (Returns (slice_to videos count), cs2, st2)
                        else
                          (Returns (slice_to videos count), cs2,
                           cache_set (''user_videos:'' @ norm_username username)
                             (Some (JArr (slice_to videos count))) st2))))))"

subsection \<open>\<^verbatim>\<open>get_hashtag_videos\<close>\<close>

definition max_blocked_retries :: nat where
  "max_blocked_retries = 3"

definition hashtag_params :: "json \<Rightarrow> string \<Rightarrow> json \<Rightarrow> (string \<times> json) list" where
  "hashtag_params challenge_id hashtag cursor =
     [(''challengeID'', challenge_id), (''challengeName'', JStr hashtag),
      (''count'', JNum 35), (''cursor'', cursor)]"

text \<open>
  The fallback of the blocked listing: a search for \<^verbatim>\<open>#tag\<close> and, when that finds
  nothing, a search for \<^verbatim>\<open>tag\<close>; the listing's own videos come first.
\<close>

definition hashtag_fallback ::
  "string \<Rightarrow> int \<Rightarrow> json list \<Rightarrow> ctx list \<Rightarrow> client
     \<Rightarrow> json list outcome \<times> ctx list \<times> client" where
  "hashtag_fallback hashtag count videos cs st =
     (case search_videos (CHR ''#'' # hashtag) count cs st of
        (Raises e, cs1, st1) \<Rightarrow> (Raises e, cs1, st1)
      | (Pending, cs1, st1) \<Rightarrow> (Pending, cs1, st1)
      | (Returns fallback_videos, cs1, st1) \<Rightarrow>
          (if fallback_videos \<noteq> []
           then (Returns (slice_to (videos @ fallback_videos) count), cs1, st1)
           else
             (case search_videos hashtag count cs1 st1 of
                (Raises e, cs2, st2) \<Rightarrow> (Raises e, cs2, st2)
              | (Pending, cs2, st2) \<Rightarrow> (Pending, cs2, st2)
              | (Returns fallback_videos2, cs2, st2) \<Rightarrow>
                  (Returns (slice_to (videos @ fallback_videos2) count), cs2, st2))))"

text \<open>
  The loop of \<^verbatim>\<open>get_hashtag_videos\<close>; \<open>blocked\<close> is \<^verbatim>\<open>blocked_retries\<close>, which a
  successful page does not reset. The result is either the list the fallback returned
  (\<open>Inl\<close>, returned as it is) or the list of the loop (\<open>Inr\<close>, cut and cached by the caller).
\<close>

fun hashtag_loop ::
  "json \<Rightarrow> string \<Rightarrow> int \<Rightarrow> json list \<Rightarrow> json \<Rightarrow> nat \<Rightarrow> ctx list \<Rightarrow> client
     \<Rightarrow> (json list + json list) outcome \<times> ctx list \<times> client" where
  "hashtag_loop challenge_id hashtag count videos cursor blocked_retries [] st =
     (if int (length videos) < count then (Pending, [], st)
      else (Returns (Inr videos), [], st))"
| "hashtag_loop challenge_id hashtag count videos cursor blocked_retries (c # cs) st =
     (if int (length videos) < count then
        (case fetch_api ''hashtag_videos'' c of
           Inl e \<Rightarrow>
             (Raises e, cs,
              note_call ''hashtag_videos'' (hashtag_params challenge_id hashtag cursor) st)
         | Inr resp \<Rightarrow>
             (case live resp of
                None \<Rightarrow>
                  (if max_blocked_retries < Suc blocked_retries then
                     (case hashtag_fallback hashtag count videos cs
                             (note_call ''hashtag_videos''
                                (hashtag_params challenge_id hashtag cursor) st) of
                        (Returns out, cs', st') \<Rightarrow> (Returns (Inl out), cs', st')
                      | (Raises e, cs', st') \<Rightarrow> (Raises e, cs', st')
                      | (Pending, cs', st') \<Rightarrow> (Pending, cs', st'))
                   else
                     hashtag_loop challenge_id hashtag count videos cursor
                       (Suc blocked_retries) cs
                       (invalidate
                          (note_call ''hashtag_videos''
                             (hashtag_params challenge_id hashtag cursor) st)))
              | Some page \<Rightarrow>
                  (case read_page ''itemList'' ''hasMore'' page of
                     Inl e \<Rightarrow>
                       (Raises e, cs,
                        note_call ''hashtag_videos''
                          (hashtag_params challenge_id hashtag cursor) st)
                   | Inr (items, has_more, next_cursor) \<Rightarrow>
                       (if \<not> has_more then
                          (Returns (Inr (append_items videos items count)), cs,
                           note_call ''hashtag_videos''
                             (hashtag_params challenge_id hashtag cursor) st)
                        else
                          hashtag_loop challenge_id hashtag count
                            (append_items videos items count) next_cursor blocked_retries cs
                            (note_call ''hashtag_videos''
                               (hashtag_params challenge_id hashtag cursor) st)))))
      else (Returns (Inr videos), c # cs, st))"

definition get_hashtag_videos ::
  "string \<Rightarrow> int \<Rightarrow> ctx list \<Rightarrow> client \<Rightarrow> json list outcome \<times> ctx list \<times> client" where
  "get_hashtag_videos hashtag count cs st =
     (case drv_fetch_api ''hashtag_detail''
             [(''challengeName'', JStr (norm_hashtag hashtag))] cs st of
        (Raises e, cs1, st1) \<Rightarrow> (Raises e, cs1, st1)
      | (Pending, cs1, st1) \<Rightarrow> (Pending, cs1, st1)
      | (Returns detail_resp, cs1, st1) \<Rightarrow>
          (case live detail_resp of
             None \<Rightarrow> (Returns [], cs1, st1)
           | Some detail \<Rightarrow>
               (if \<not> truthy (safe_get detail [''challengeInfo'', ''challenge'', ''id''] (JStr ''''))
                then (Returns [], cs1, st1)
                else
                  (case hashtag_loop
                          (safe_get detail [''challengeInfo'', ''challenge'', ''id''] (JStr ''''))
                          (norm_hashtag hashtag) count [] (JNum 0) 0 cs1 st1 of
                     (Raises e, cs2, st2) \<Rightarrow> (Raises e, cs2, st2)
                   | (Pending, cs2, st2) \<Rightarrow> (Pending, cs2, st2)
                   | (Returns (Inl out), cs2, st2) \<Rightarrow> (Returns out, cs2, st2)
                   | (Returns (Inr videos), cs2, st2) \<Rightarrow>
                       (Returns (slice_to videos count), cs2,
                        cache_set (''hashtag_videos:'' @ norm_hashtag hashtag)
                          (Some (JArr (slice_to videos count))) st2)))))"

subsection \<open>The calls that fetch one page or one object\<close>

text \<open>
  \<^verbatim>\<open>x[:count]\<close> on a value: a list and a string can be sliced, anything else raises
  (\<^verbatim>\<open>TypeError\<close>; for a dict some versions of Python raise \<^verbatim>\<open>KeyError\<close>
  instead).
\<close>

definition slice_json :: "json \<Rightarrow> int \<Rightarrow> error + json" where
  "slice_json v n =
     (case v of
        JArr xs \<Rightarrow> Inr (JArr (slice_to xs n))
      | JStr s \<Rightarrow> Inr (JStr (slice_to s n))
      | _ \<Rightarrow> Inl TypeError)"

text \<open>
  \<^verbatim>\<open>get_trending_videos\<close> and \<^verbatim>\<open>get_related_videos\<close> share their tail:
  \<^verbatim>\<open>if not resp: return []; out = resp.get("itemList", [])[:count]; self._cache_set(key, out)\<close>.
  What they return is whatever the slice gives, a list in all normal cases.
\<close>

definition first_page ::
  "string \<Rightarrow> int \<Rightarrow> json option outcome \<times> ctx list \<times> client \<Rightarrow> json outcome \<times> ctx list \<times> client" where
  "first_page cache_key count fetched =
     (case fetched of
        (Raises e, cs', st') \<Rightarrow> (Raises e, cs', st')
      | (Pending, cs', st') \<Rightarrow> (Pending, cs', st')
      | (Returns resp, cs', st') \<Rightarrow>
          (case live resp of
             None \<Rightarrow> (Returns (JArr []), cs', st')
           | Some (JObj kvs) \<Rightarrow>
               (case slice_json (dict_get kvs ''itemList'' (JArr [])) count of
                  Inl e \<Rightarrow> (Raises e, cs', st')
                | Inr out \<Rightarrow> (Returns out, cs', cache_set cache_key (Some out) st'))
           | Some _ \<Rightarrow> (Raises AttributeError, cs', st')))"

definition get_trending_videos ::
  "int \<Rightarrow> ctx list \<Rightarrow> client \<Rightarrow> json outcome \<times> ctx list \<times> client" where
  "get_trending_videos count cs st =
     first_page ''trending'' count
       (drv_fetch_api ''trending'' [(''from_page'', JStr ''fyp''), (''count'', JNum count)] cs st)"

text \<open>The warm-up navigation of \<^verbatim>\<open>get_related_videos\<close> is inside \<^verbatim>\<open>try\<close>.\<close>

definition get_related_videos ::
  "string \<Rightarrow> int \<Rightarrow> ctx list \<Rightarrow> client \<Rightarrow> json outcome \<times> ctx list \<times> client" where
  "get_related_videos video_id count cs st =
     first_page (''related_videos:'' @ video_id_of video_id) count
       (drv_fetch_api ''related_videos''
          [(''itemID'', JStr (video_id_of video_id)), (''count'', JNum count)] cs st)"

text \<open>\<^verbatim>\<open>[u.get("user_info", {}) for u in ...]\<close>\<close>

fun user_infos :: "json list \<Rightarrow> error + json list" where
  "user_infos [] = Inr []"
| "user_infos (u # us) =
     (case u of
        JObj kvs \<Rightarrow>
          (case user_infos us of
             Inl e \<Rightarrow> Inl e
           | Inr rest \<Rightarrow> Inr (dict_get kvs ''user_info'' (JObj []) # rest))
      | _ \<Rightarrow> Inl AttributeError)"

definition search_users ::
  "string \<Rightarrow> int \<Rightarrow> ctx list \<Rightarrow> client \<Rightarrow> json list outcome \<times> ctx list \<times> client" where
  "search_users keyword count cs st =
     (case drv_fetch_api ''search_users''
             [(''keyword'', JStr keyword), (''cursor'', JNum 0), (''from_page'', JStr ''search'')]
             cs st of
        (Raises e, cs', st') \<Rightarrow> (Raises e, cs', st')
      | (Pending, cs', st') \<Rightarrow> (Pending, cs', st')
      | (Returns resp, cs', st') \<Rightarrow>
          (case live resp of
             None \<Rightarrow> (Returns [], cs', st')
           | Some (JObj kvs) \<Rightarrow>
               (case py_iter (dict_get kvs ''user_list'' (JArr [])) of
                  Inl e \<Rightarrow> (Raises e, cs', st')
                | Inr us \<Rightarrow>
                    (case user_infos us of
                       Inl e \<Rightarrow> (Raises e, cs', st')
                     | Inr infos \<Rightarrow>
                         (Returns (slice_to infos count), cs',
                          cache_set (''search_users:'' @ keyword)
                            (Some (JArr (slice_to infos count))) st')))
           | Some _ \<Rightarrow> (Raises AttributeError, cs', st')))"

definition get_sound_info ::
  "string \<Rightarrow> ctx list \<Rightarrow> client \<Rightarrow> json option outcome \<times> ctx list \<times> client" where
  "get_sound_info sound_id cs st =
     (case drv_fetch_api ''sound_detail'' [(''musicId'', JStr sound_id)] cs st of
        (Returns out, cs', st') \<Rightarrow>
          (Returns out, cs', cache_set (''sound_detail:'' @ sound_id) out st')
      | (Raises e, cs', st') \<Rightarrow> (Raises e, cs', st')
      | (Pending, cs', st') \<Rightarrow> (Pending, cs', st'))"

definition get_playlist_info ::
  "string \<Rightarrow> ctx list \<Rightarrow> client \<Rightarrow> json option outcome \<times> ctx list \<times> client" where
  "get_playlist_info playlist_id cs st =
     (case drv_fetch_api ''playlist_detail'' [(''mixId'', JStr playlist_id)] cs st of
        (Returns out, cs', st') \<Rightarrow>
          (Returns out, cs', cache_set (''playlist_detail:'' @ playlist_id) out st')
      | (Raises e, cs', st') \<Rightarrow> (Raises e, cs', st')
      | (Pending, cs', st') \<Rightarrow> (Pending, cs', st'))"

section \<open>Merging with the file on disk\<close>

subsection \<open>Writing and reading a file\<close>

text \<open>\<^verbatim>\<open>str\<close> of an integer, which is also how \<^verbatim>\<open>to_csv\<close> writes one.\<close>

fun digits_of :: "nat \<Rightarrow> string" where
  "digits_of n =
     (if n < 10 then [''0123456789'' ! n]
      else digits_of (n div 10) @ [''0123456789'' ! (n mod 10)])"

declare digits_of.simps [simp del]

definition str_of_int :: "int \<Rightarrow> string" where
  "str_of_int i = (if i < 0 then CHR ''-'' # digits_of (nat (- i)) else digits_of (nat i))"

text \<open>\<^verbatim>\<open>astype(str)\<close> on one cell; \<^verbatim>\<open>to_csv\<close> writes the same text.\<close>

fun astype_str :: "cell \<Rightarrow> string" where
  "astype_str (IntCell i) = str_of_int i"
| "astype_str (StrCell s) = s"

definition to_text :: "row \<Rightarrow> text_row" where
  "to_text r = (\<lambda>col. astype_str (r col))"

definition to_csv :: "row list \<Rightarrow> csv" where
  "to_csv df = Table (map to_text df)"

text \<open>
  \<^verbatim>\<open>pd.read_csv(path, keep_default_na=False)\<close> is called without \<^verbatim>\<open>dtype\<close>, so it
  infers the type of every column: a column in which every text is an integer numeral
  (digits, with or without a minus sign, leading zeros allowed) is read as integers,
  and \<^verbatim>\<open>01\<close> comes back as 1. Every other column is read here as the text it
  holds; what pandas makes of fractions, of the words \<^verbatim>\<open>True\<close> and
  \<^verbatim>\<open>False\<close>, of a plus sign or blanks around a numeral and of numerals that do
  not fit 64 bits is not modelled, and the theorems below that speak of texts read back
  unchanged ask for numerals below \<open>2 ^ 63\<close> without leading zeros.
\<close>

definition digit_val :: "char \<Rightarrow> nat" where
  "digit_val c = of_char c - 48"

definition nat_of_digits :: "string \<Rightarrow> nat" where
  "nat_of_digits s = foldl (\<lambda>n c. 10 * n + digit_val c) 0 s"

definition is_int_lit :: "string \<Rightarrow> bool" where
  "is_int_lit t =
     (case t of
        [] \<Rightarrow> False
      | c # cs \<Rightarrow>
          (if c = CHR ''-'' then cs \<noteq> [] \<and> list_all is_digit cs
           else list_all is_digit (c # cs)))"

definition int_of_lit :: "string \<Rightarrow> int" where
  "int_of_lit t =
     (case t of
        [] \<Rightarrow> 0
      | c # cs \<Rightarrow>
          (if c = CHR ''-'' then - int (nat_of_digits cs) else int (nat_of_digits (c # cs))))"

definition int_column :: "text_row list \<Rightarrow> string \<Rightarrow> bool" where
  "int_column rows col = list_all (\<lambda>r. is_int_lit (r col)) rows"

definition parse_rows :: "text_row list \<Rightarrow> row list" where
  "parse_rows rows =
     map (\<lambda>r col. if int_column rows col then IntCell (int_of_lit (r col)) else StrCell (r col))
       rows"

fun read_csv :: "csv \<Rightarrow> error + row list" where
  "read_csv NoColumns = Inl EmptyDataError"
| "read_csv (Table rows) = Inr (parse_rows rows)"

subsection \<open>\<^verbatim>\<open>_deduplicate\<close>\<close>

text \<open>\<^verbatim>\<open>new_df[key] = new_df[key].astype(str)\<close> on one row.\<close>

definition coerce_key :: "string \<Rightarrow> row \<Rightarrow> row" where
  "coerce_key key r = r(key := StrCell (astype_str (r key)))"

text \<open>
  \<^verbatim>\<open>drop_duplicates(subset=[key])\<close> keeps the first row of every value of the key
  column; \<open>seen\<close> holds the values met so far.
\<close>

fun keep_first :: "cell list \<Rightarrow> string \<Rightarrow> row list \<Rightarrow> row list" where
  "keep_first seen key [] = []"
| "keep_first seen key (r # rs) =
     (if r key \<in> set seen then keep_first seen key rs
      else r # keep_first (r key # seen) key rs)"

definition drop_duplicates :: "string \<Rightarrow> row list \<Rightarrow> row list" where
  "drop_duplicates key df = keep_first [] key df"

text \<open>
  \<^verbatim>\<open>_deduplicate(existing_path, new_df, key)\<close>; the first argument is what is at the
  path (\<open>None\<close> when \<^verbatim>\<open>os.path.exists\<close> is false). Every frame here has the key
  column: a row is a total map.
\<close>

definition deduplicate :: "csv option \<Rightarrow> row list \<Rightarrow> string \<Rightarrow> error + row list" where
  "deduplicate existing new_df key =
     (case existing of
        None \<Rightarrow> Inr (drop_duplicates key (map (coerce_key key) new_df))
      | Some content \<Rightarrow>
          (case read_csv content of
             Inl e \<Rightarrow> Inl e
           | Inr old \<Rightarrow> Inr (drop_duplicates key (map (coerce_key key) (old @ new_df)))))"

text \<open>
  \<^verbatim>\<open>df = _deduplicate(path, df, key); df.to_csv(path, index=False)\<close> on the files.
\<close>

definition merge_and_write ::
  "string \<Rightarrow> row list \<Rightarrow> string \<Rightarrow> (string \<Rightarrow> csv option) \<Rightarrow> error + (string \<Rightarrow> csv option)" where
  "merge_and_write path new_rows key fs =
     (case deduplicate (fs path) new_rows key of
        Inl e \<Rightarrow> Inl e
      | Inr df \<Rightarrow> Inr (fs(path \<mapsto> to_csv df)))"


section \<open>The \<^verbatim>\<open>save_*_csv\<close> helpers\<close>

text \<open>The rows of a list of items; the first item that cannot be turned into a row raises.\<close>

fun rows_of :: "(json \<Rightarrow> error + row) \<Rightarrow> json list \<Rightarrow> error + row list" where
  "rows_of row_of [] = Inr []"
| "rows_of row_of (v # vs) =
     (case row_of v of
        Inl e \<Rightarrow> Inl e
      | Inr r \<Rightarrow> (case rows_of row_of vs of Inl e \<Rightarrow> Inl e | Inr rs \<Rightarrow> Inr (r # rs)))"

text \<open>
  \<^verbatim>\<open>if not videos: cached = self._cache_get(key, []); if cached: videos = cached[:count]\<close>
\<close>

definition cached_or :: "string \<Rightarrow> int \<Rightarrow> json \<Rightarrow> client \<Rightarrow> error + json" where
  "cached_or cache_key count videos st =
     (if truthy videos then Inr videos
      else if \<not> truthy (cache_get cache_key (JArr []) st) then Inr videos
      else slice_json (cache_get cache_key (JArr []) st) count)"

text \<open>
  What the helpers for lists of videos and comments do once the items are fetched:
  \<^verbatim>\<open>if not videos: pd.DataFrame().to_csv(filename, index=False); return filename\<close>,
  else the rows are built, merged with the file and written. The row builders
  (\<^verbatim>\<open>generate_video_data_row\<close>, \<^verbatim>\<open>_comment_export_row\<close>) are a parameter, and
  \<open>filename\<close> is the path the call writes (given by the caller or derived from the
  identifier).
\<close>

definition save_items ::
  "(json \<Rightarrow> error + row) \<Rightarrow> string \<Rightarrow> string \<Rightarrow> string \<Rightarrow> int \<Rightarrow> json \<Rightarrow> client
     \<Rightarrow> string outcome \<times> client" where
  "save_items row_of dedup_key cache_key filename count fetched st =
     (case cached_or cache_key count fetched st of
        Inl e \<Rightarrow> (Raises e, st)
      | Inr videos \<Rightarrow>
          (if \<not> truthy videos
           then (Returns filename, st\<lparr>files := (files st)(filename \<mapsto> NoColumns)\<rparr>)
           else
             (case py_iter videos of
                Inl e \<Rightarrow> (Raises e, st)
              | Inr items \<Rightarrow>
                  (case rows_of row_of items of
                     Inl e \<Rightarrow> (Raises e, st)
                   | Inr rows \<Rightarrow>
                       (case merge_and_write filename rows dedup_key (files st) of
                          Inl e \<Rightarrow> (Raises e, st)
                        | Inr fs \<Rightarrow> (Returns filename, st\<lparr>files := fs\<rparr>))))))"

text \<open>
  A helper is its listing call followed by \<open>save_items\<close>; \<open>wrap\<close> turns the list of a
  listing call into the value the helper holds.
\<close>

definition save_after ::
  "('a \<Rightarrow> json) \<Rightarrow> (json \<Rightarrow> error + row) \<Rightarrow> string \<Rightarrow> string \<Rightarrow> string \<Rightarrow> int
     \<Rightarrow> 'a outcome \<times> ctx list \<times> client \<Rightarrow> string outcome \<times> ctx list \<times> client" where
  "save_after wrap row_of dedup_key cache_key filename count fetched =
     (case fetched of
        (Raises e, cs', st') \<Rightarrow> (Raises e, cs', st')
      | (Pending, cs', st') \<Rightarrow> (Pending, cs', st')
      | (Returns videos, cs', st') \<Rightarrow>
          (case save_items row_of dedup_key cache_key filename count (wrap videos) st' of
             (r, st'') \<Rightarrow> (r, cs', st'')))"

definition save_user_videos_csv ::
  "(json \<Rightarrow> error + row) \<Rightarrow> string \<Rightarrow> int \<Rightarrow> string \<Rightarrow> ctx list \<Rightarrow> client
     \<Rightarrow> string outcome \<times> ctx list \<times> client" where
  "save_user_videos_csv row_of username count filename cs st =
     save_after JArr row_of ''video_id'' (''user_videos:'' @ norm_username username)
       filename count (get_user_videos username count cs st)"

definition save_hashtag_videos_csv ::
  "(json \<Rightarrow> error + row) \<Rightarrow> string \<Rightarrow> int \<Rightarrow> string \<Rightarrow> ctx list \<Rightarrow> client
     \<Rightarrow> string outcome \<times> ctx list \<times> client" where
  "save_hashtag_videos_csv row_of hashtag count filename cs st =
     save_after JArr row_of ''video_id'' (''hashtag_videos:'' @ norm_hashtag hashtag)
       filename count (get_hashtag_videos hashtag count cs st)"

definition save_trending_videos_csv ::
  "(json \<Rightarrow> error + row) \<Rightarrow> int \<Rightarrow> string \<Rightarrow> ctx list \<Rightarrow> client
     \<Rightarrow> string outcome \<times> ctx list \<times> client" where
  "save_trending_videos_csv row_of count filename cs st =
     save_after (\<lambda>v. v) row_of ''video_id'' ''trending''
       filename count (get_trending_videos count cs st)"

definition save_related_videos_csv ::
  "(json \<Rightarrow> error + row) \<Rightarrow> string \<Rightarrow> int \<Rightarrow> string \<Rightarrow> ctx list \<Rightarrow> client
     \<Rightarrow> string outcome \<times> ctx list \<times> client" where
  "save_related_videos_csv row_of video_id count filename cs st =
     save_after (\<lambda>v. v) row_of ''video_id'' (''related_videos:'' @ video_id_of video_id)
       filename count (get_related_videos video_id count cs st)"

definition save_sound_videos_csv ::
  "(json \<Rightarrow> error + row) \<Rightarrow> string \<Rightarrow> int \<Rightarrow> string \<Rightarrow> ctx list \<Rightarrow> client
     \<Rightarrow> string outcome \<times> ctx list \<times> client" where
  "save_sound_videos_csv row_of sound_id count filename cs st =
     save_after JArr row_of ''video_id'' (''sound_videos:'' @ sound_id)
       filename count (get_sound_videos sound_id count cs st)"

definition save_playlist_videos_csv ::
  "(json \<Rightarrow> error + row) \<Rightarrow> string \<Rightarrow> int \<Rightarrow> string \<Rightarrow> ctx list \<Rightarrow> client
     \<Rightarrow> string outcome \<times> ctx list \<times> client" where
  "save_playlist_videos_csv row_of playlist_id count filename cs st =
     save_after JArr row_of ''video_id'' (''playlist_videos:'' @ playlist_id)
       filename count (get_playlist_videos playlist_id count cs st)"

definition save_search_videos_csv ::
  "(json \<Rightarrow> error + row) \<Rightarrow> string \<Rightarrow> int \<Rightarrow> string \<Rightarrow> ctx list \<Rightarrow> client
     \<Rightarrow> string outcome \<times> ctx list \<times> client" where
  "save_search_videos_csv row_of keyword count filename cs st =
     save_after JArr row_of ''video_id'' (''search_videos:'' @ keyword)
       filename count (search_videos keyword count cs st)"

subsection \<open>Comments: the default file name\<close>

text \<open>\<^verbatim>\<open>re.sub(r"\s+", "_", s)\<close>\<close>

function collapse_ws :: "string \<Rightarrow> string" where
  "collapse_ws [] = []"
| "collapse_ws (c # s) =
     (if is_space c then CHR ''_'' # collapse_ws (dropWhile is_space s)
      else c # collapse_ws s)"
  by pat_completeness auto
termination
  by (relation "measure length") (auto simp: length_dropWhile_le less_Suc_eq_le)

text \<open>The characters that \<^verbatim>\<open>re.sub(r"[^A-Za-z0-9_@\-\.]+", "", s)\<close> keeps.\<close>

definition safe_char :: "char \<Rightarrow> bool" where
  "safe_char c =
     (c \<in> set ''ABCDEFGHIJKLMNOPQRSTUVWXYZabcdefghijklmnopqrstuvwxyz0123456789_@-.'')"

definition sanitize_filename_part :: "string \<Rightarrow> string" where
  "sanitize_filename_part s =
     (if strip s = [] then ''unknown''
      else if filter safe_char
                (collapse_ws (map (\<lambda>c. if c = CHR ''/'' then CHR ''_'' else c) (strip s))) = []
      then ''unknown''
      else filter safe_char
             (collapse_ws (map (\<lambda>c. if c = CHR ''/'' then CHR ''_'' else c) (strip s))))"

text \<open>\<^verbatim>\<open>_default_csv_filename("video_comments", identifier)\<close>\<close>

definition default_comments_filename :: "string \<Rightarrow> string" where
  "default_comments_filename identifier =
     ''comments_'' @
     (case find_video_id (strip identifier) of
        Some d \<Rightarrow> d
      | None \<Rightarrow> sanitize_filename_part (strip identifier)) @
     ''.csv''"

definition save_video_comments_csv ::
  "(string \<Rightarrow> json \<Rightarrow> error + row) \<Rightarrow> string \<Rightarrow> int \<Rightarrow> string option \<Rightarrow> ctx list \<Rightarrow> client
     \<Rightarrow> string outcome \<times> ctx list \<times> client" where
  "save_video_comments_csv row_of video_id count filename cs st =
     save_after JArr (row_of (video_id_of video_id)) ''cid''
       (''video_comments:'' @ video_id_of video_id)
       (case filename of None \<Rightarrow> default_comments_filename video_id | Some f \<Rightarrow> f)
       count (get_video_comments video_id count cs st)"

subsection \<open>The helpers that flatten what they fetched\<close>

text \<open>
  \<^verbatim>\<open>save_user_info_csv\<close>, \<^verbatim>\<open>save_sound_info_csv\<close>, \<^verbatim>\<open>save_playlist_info_csv\<close>
  and \<^verbatim>\<open>save_search_users_csv\<close> flatten with \<^verbatim>\<open>pd.json_normalize\<close>, append to
  the rows on disk and drop duplicates on the first of their candidate key columns that
  the frame has. The flattening and the test \<^verbatim>\<open>key in df.columns\<close> are parameters:
  \<open>flatten\<close> gives the rows of a value, \<open>in_columns\<close> says whether a frame has a column.
\<close>

definition save_flat ::
  "(json \<Rightarrow> error + row list) \<Rightarrow> (string \<Rightarrow> row list \<Rightarrow> bool) \<Rightarrow> string list \<Rightarrow> string
     \<Rightarrow> json \<Rightarrow> client \<Rightarrow> string outcome \<times> client" where
  "save_flat flatten in_columns candidates filename data st =
     (case flatten data of
        Inl e \<Rightarrow> (Raises e, st)
      | Inr df \<Rightarrow>
          (case (case files st filename of
                   None \<Rightarrow> Inr df
                 | Some content \<Rightarrow>
                     (case read_csv content of Inl e \<Rightarrow> Inl e | Inr old \<Rightarrow> Inr (old @ df))) of
             Inl e \<Rightarrow> (Raises e, st)
           | Inr all_rows \<Rightarrow>
               (Returns filename,
                st\<lparr>files := (files st)(filename \<mapsto>
                      to_csv (case find (\<lambda>key. in_columns key all_rows) candidates of
                                None \<Rightarrow> all_rows
                              | Some key \<Rightarrow>
                                  drop_duplicates key (map (coerce_key key) all_rows)))\<rparr>)))"

text \<open>
  \<^verbatim>\<open>data = self.get_..._info(...); if not data: pd.DataFrame().to_csv(filename); return filename\<close>
\<close>

definition save_info ::
  "(json \<Rightarrow> error + row list) \<Rightarrow> (string \<Rightarrow> row list \<Rightarrow> bool) \<Rightarrow> string list \<Rightarrow> string
     \<Rightarrow> json option outcome \<times> ctx list \<times> client \<Rightarrow> string outcome \<times> ctx list \<times> client" where
  "save_info flatten in_columns candidates filename fetched =
     (case fetched of
        (Raises e, cs', st') \<Rightarrow> (Raises e, cs', st')
      | (Pending, cs', st') \<Rightarrow> (Pending, cs', st')
      | (Returns data, cs', st') \<Rightarrow>
          (case live data of
             None \<Rightarrow> (Returns filename, cs', st'\<lparr>files := (files st')(filename \<mapsto> NoColumns)\<rparr>)
           | Some d \<Rightarrow>
               (case save_flat flatten in_columns candidates filename d st' of
                  (r, st'') \<Rightarrow> (r, cs', st''))))"

definition save_user_info_csv ::
  "(json \<Rightarrow> error + row list) \<Rightarrow> (string \<Rightarrow> row list \<Rightarrow> bool) \<Rightarrow> string \<Rightarrow> string
     \<Rightarrow> ctx list \<Rightarrow> client \<Rightarrow> string outcome \<times> ctx list \<times> client" where
  "save_user_info_csv flatten in_columns username filename cs st =
     save_info flatten in_columns
       [''userInfo.user.id'', ''userInfo.user.uniqueId'', ''userInfo.user.secUid'']
       filename (get_user_info username cs st)"

definition save_sound_info_csv ::
  "(json \<Rightarrow> error + row list) \<Rightarrow> (string \<Rightarrow> row list \<Rightarrow> bool) \<Rightarrow> string \<Rightarrow> string
     \<Rightarrow> ctx list \<Rightarrow> client \<Rightarrow> string outcome \<times> ctx list \<times> client" where
  "save_sound_info_csv flatten in_columns sound_id filename cs st =
     save_info flatten in_columns [''musicInfo.music.id'', ''musicInfo.music.title'']
       filename (get_sound_info sound_id cs st)"

definition save_playlist_info_csv ::
  "(json \<Rightarrow> error + row list) \<Rightarrow> (string \<Rightarrow> row list \<Rightarrow> bool) \<Rightarrow> string \<Rightarrow> string
     \<Rightarrow> ctx list \<Rightarrow> client \<Rightarrow> string outcome \<times> ctx list \<times> client" where
  "save_playlist_info_csv flatten in_columns playlist_id filename cs st =
     save_info flatten in_columns [''mixInfo.mixId'', ''mixInfo.mix.id'', ''mixInfo.title'']
       filename (get_playlist_info playlist_id cs st)"

definition save_search_users_csv ::
  "(json \<Rightarrow> error + row list) \<Rightarrow> (string \<Rightarrow> row list \<Rightarrow> bool) \<Rightarrow> string \<Rightarrow> int \<Rightarrow> string
     \<Rightarrow> ctx list \<Rightarrow> client \<Rightarrow> string outcome \<times> ctx list \<times> client" where
  "save_search_users_csv flatten in_columns keyword count filename cs st =
     (case search_users keyword count cs st of
        (Raises e, cs', st') \<Rightarrow> (Raises e, cs', st')
      | (Pending, cs', st') \<Rightarrow> (Pending, cs', st')
      | (Returns users, cs', st') \<Rightarrow>
          (case cached_or (''search_users:'' @ keyword) count (JArr users) st' of
             Inl e \<Rightarrow> (Raises e, cs', st')
           | Inr found \<Rightarrow>
               (if \<not> truthy found
                then (Returns filename, cs', st'\<lparr>files := (files st')(filename \<mapsto> NoColumns)\<rparr>)
                else
                  (case save_flat flatten in_columns
                          [''uniqueId'', ''unique_id'', ''uid'', ''user.uniqueId'',
                           ''user.unique_id'']
                          filename found st' of
                     (r, st'') \<Rightarrow> (r, cs', st'')))))"

section \<open>An attempt that is retried\<close>


section \<open>Some execution contexts\<close>

text \<open>
  Contexts on which the model is run below: one in which the signing capability never
  loads, one in which every attempt yields an empty body, and one in which every attempt
  yields the given parsed body (with a body text of ten characters, the shortest that is
  parsed).
\<close>

definition unsigned_ctx :: ctx where
  "unsigned_ctx = \<lparr>ready = \<lambda>i. False, nav_ok = \<lambda>i. True, attempt = \<lambda>a. Raised\<rparr>"

definition empty_body_ctx :: ctx where
  "empty_body_ctx = \<lparr>ready = \<lambda>i. True, nav_ok = \<lambda>i. True, attempt = \<lambda>a. Fetched [] None\<rparr>"

definition page_ctx :: "json \<Rightarrow> ctx" where
  "page_ctx body =
     \<lparr>ready = \<lambda>i. True, nav_ok = \<lambda>i. True, attempt = \<lambda>a. Fetched ''0123456789'' (Some body)\<rparr>"

definition fresh_client :: client where
  "fresh_client =
     \<lparr>memo = False, derived = 0, last_ok = \<lambda>k. None, files = \<lambda>p. None, calls = []\<rparr>"

section \<open>Properties of \<^verbatim>\<open>fetch_api\<close>\<close>


lemma attempts_from_obj:
  "fst (attempts_from key c n a) = Some v \<Longrightarrow> \<exists>kvs. v = JObj kvs \<and> accepted key kvs"
proof (induction n arbitrary: a)
  case 0
  then show ?case by simp
next
  case (Suc n)
  note ih = Suc.IH[of "Suc a"]
  show ?case using Suc.prems ih
    by (auto split: attempt.splits option.splits json.splits if_splits)
qed


text \<open>
  Claim C8. \<^verbatim>\<open>fetch_api\<close> is documented to return the parsed response or
  \<^verbatim>\<open>None\<close> on failure, and the recovery navigation inside the retry loop is
  guarded; the navigation in the loop that waits for the signing capability is not.
  When the capability is missing at the first probe and the navigation that follows
  fails, the exception leaves \<^verbatim>\<open>fetch_api\<close> although the endpoint key is in the
  table.
\<close>

theorem fetch_api_navigation_failure_raises:
  "known_endpoint ''user_videos'' \<and>
   fetch_api ''user_videos''
     \<lparr>ready = \<lambda>_. False, nav_ok = \<lambda>_. False, attempt = \<lambda>_. Raised\<rparr>
   = Inl WebDriverException"
  by (simp add: known_endpoint_def fetch_api_def fetch_api_attempts_def
      HIDDEN_API_ENDPOINTS_def max_sign_attempts_def eval_nat_numeral)



section \<open>Properties of the merge with the file on disk\<close>

subsection \<open>Numerals written and read back\<close>









subsection \<open>Dropping duplicates\<close>





lemma coerce_key_idem: "coerce_key key (coerce_key key r) = coerce_key key r"
  by (simp add: coerce_key_def)











subsection \<open>The keys after a merge\<close>






subsection \<open>Merging the same rows again\<close>







section \<open>Running the model on the example contexts\<close>

lemma fetch_api_unsigned: "known_endpoint key \<Longrightarrow> fetch_api key unsigned_ctx = Inr None"
  by (auto simp: known_endpoint_def fetch_api_def fetch_api_attempts_def unsigned_ctx_def
      max_sign_attempts_def eval_nat_numeral)

lemma fetch_api_page:
  "known_endpoint key \<Longrightarrow> accepted key kvs \<Longrightarrow> fetch_api key (page_ctx (JObj kvs)) = Inr (Some (JObj kvs))"
  by (auto simp: known_endpoint_def fetch_api_def fetch_api_attempts_def page_ctx_def
      max_sign_attempts_def max_retries_def eval_nat_numeral)

lemma fetch_api_page_blocked:
  "fetch_api ''hashtag_videos'' (page_ctx (JObj [(''statusCode'', JNum 100002)])) = Inr None"
  by (simp add: fetch_api_def fetch_api_attempts_def page_ctx_def HIDDEN_API_ENDPOINTS_def
      max_sign_attempts_def max_retries_def eval_nat_numeral accepted_def blocked_def expected_keys_def)

lemma known_endpoints [simp]:
  "known_endpoint ''user_detail''" "known_endpoint ''user_videos''"
  "known_endpoint ''hashtag_detail''" "known_endpoint ''hashtag_videos''"
  "known_endpoint ''video_comments''" "known_endpoint ''search_general''"
  "known_endpoint ''sound_videos''" "known_endpoint ''playlist_videos''"
  "known_endpoint ''trending''" "known_endpoint ''related_videos''"
  "known_endpoint ''search_users''" "known_endpoint ''sound_detail''"
  "known_endpoint ''playlist_detail''"
  by (simp_all add: known_endpoint_def HIDDEN_API_ENDPOINTS_def)

lemma norm_u [simp]: "norm_username ''u'' = ''u''" "norm_hashtag ''h'' = ''h''"
  by (simp_all add: norm_username_def norm_hashtag_def strip_def lstrip_char_def is_space_def)


section \<open>Saving when nothing was fetched and nothing is cached\<close>

lemma save_items_empty:
  "last_ok st cache_key = None \<Longrightarrow>
   save_items row_of dedup_key cache_key filename count (JArr []) st =
     (Returns filename, st\<lparr>files := (files st)(filename \<mapsto> NoColumns)\<rparr>)"
  by (simp add: save_items_def cached_or_def cache_get_def)

lemma save_after_empty:
  "fetched = (Returns v, cs', st') \<Longrightarrow> wrap v = JArr [] \<Longrightarrow> last_ok st' cache_key = None \<Longrightarrow>
   save_after wrap row_of dedup_key cache_key filename count fetched =
     (Returns filename, cs', st'\<lparr>files := (files st')(filename \<mapsto> NoColumns)\<rparr>)"
  by (simp add: save_after_def save_items_empty)

lemma save_info_empty:
  "fetched = (Returns data, cs', st') \<Longrightarrow> live data = None \<Longrightarrow>
   save_info flatten in_columns candidates filename fetched =
     (Returns filename, cs', st'\<lparr>files := (files st')(filename \<mapsto> NoColumns)\<rparr>)"
  by (simp add: save_info_def)

text \<open>
  Claim C9. When the call that fetches inside a \<^verbatim>\<open>save_*_csv\<close> helper returns
  nothing (the empty list for the nine helpers that save a list, \<^verbatim>\<open>None\<close> or an
  empty object for the three that save one object) and, for the helpers that fall back
  on the cache, the cache has no entry under the helper's key, the helper returns the
  file name and leaves at that path a file without columns, whatever was there before:
  the rows persisted earlier are gone, not merged. This holds for each of the twelve
  helpers.
\<close>

theorem save_with_nothing_overwrites:
  "(get_user_videos username count cs st = (Returns [], cs', st') \<longrightarrow>
      last_ok st' (''user_videos:'' @ norm_username username) = None \<longrightarrow>
      save_user_videos_csv row_of username count filename cs st =
        (Returns filename, cs', st'\<lparr>files := (files st')(filename \<mapsto> NoColumns)\<rparr>))
   \<and> (get_hashtag_videos hashtag count cs st = (Returns [], cs', st') \<longrightarrow>
      last_ok st' (''hashtag_videos:'' @ norm_hashtag hashtag) = None \<longrightarrow>
      save_hashtag_videos_csv row_of hashtag count filename cs st =
        (Returns filename, cs', st'\<lparr>files := (files st')(filename \<mapsto> NoColumns)\<rparr>))
   \<and> (get_video_comments video_id count cs st = (Returns [], cs', st') \<longrightarrow>
      last_ok st' (''video_comments:'' @ video_id_of video_id) = None \<longrightarrow>
      save_video_comments_csv crow_of video_id count given cs st =
        (Returns (case given of None \<Rightarrow> default_comments_filename video_id | Some f \<Rightarrow> f), cs',
         st'\<lparr>files := (files st')
            ((case given of None \<Rightarrow> default_comments_filename video_id | Some f \<Rightarrow> f)
               \<mapsto> NoColumns)\<rparr>))
   \<and> (get_trending_videos count cs st = (Returns (JArr []), cs', st') \<longrightarrow>
      last_ok st' ''trending'' = None \<longrightarrow>
      save_trending_videos_csv row_of count filename cs st =
        (Returns filename, cs', st'\<lparr>files := (files st')(filename \<mapsto> NoColumns)\<rparr>))
   \<and> (get_related_videos video_id count cs st = (Returns (JArr []), cs', st') \<longrightarrow>
      last_ok st' (''related_videos:'' @ video_id_of video_id) = None \<longrightarrow>
      save_related_videos_csv row_of video_id count filename cs st =
        (Returns filename, cs', st'\<lparr>files := (files st')(filename \<mapsto> NoColumns)\<rparr>))
   \<and> (get_sound_videos sound_id count cs st = (Returns [], cs', st') \<longrightarrow>
      last_ok st' (''sound_videos:'' @ sound_id) = None \<longrightarrow>
      save_sound_videos_csv row_of sound_id count filename cs st =
        (Returns filename, cs', st'\<lparr>files := (files st')(filename \<mapsto> NoColumns)\<rparr>))
   \<and> (get_playlist_videos playlist_id count cs st = (Returns [], cs', st') \<longrightarrow>
      last_ok st' (''playlist_videos:'' @ playlist_id) = None \<longrightarrow>
      save_playlist_videos_csv row_of playlist_id count filename cs st =
        (Returns filename, cs', st'\<lparr>files := (files st')(filename \<mapsto> NoColumns)\<rparr>))
   \<and> (search_videos keyword count cs st = (Returns [], cs', st') \<longrightarrow>
      last_ok st' (''search_videos:'' @ keyword) = None \<longrightarrow>
      save_search_videos_csv row_of keyword count filename cs st =
        (Returns filename, cs', st'\<lparr>files := (files st')(filename \<mapsto> NoColumns)\<rparr>))
   \<and> (search_users keyword count cs st = (Returns [], cs', st') \<longrightarrow>
      last_ok st' (''search_users:'' @ keyword) = None \<longrightarrow>
      save_search_users_csv flatten in_columns keyword count filename cs st =
        (Returns filename, cs', st'\<lparr>files := (files st')(filename \<mapsto> NoColumns)\<rparr>))
   \<and> (get_user_info username cs st = (Returns data, cs', st') \<longrightarrow> live data = None \<longrightarrow>
      save_user_info_csv flatten in_columns username filename cs st =
        (Returns filename, cs', st'\<lparr>files := (files st')(filename \<mapsto> NoColumns)\<rparr>))
   \<and> (get_sound_info sound_id cs st = (Returns data, cs', st') \<longrightarrow> live data = None \<longrightarrow>
      save_sound_info_csv flatten in_columns sound_id filename cs st =
        (Returns filename, cs', st'\<lparr>files := (files st')(filename \<mapsto> NoColumns)\<rparr>))
   \<and> (get_playlist_info playlist_id cs st = (Returns data, cs', st') \<longrightarrow> live data = None \<longrightarrow>
      save_playlist_info_csv flatten in_columns playlist_id filename cs st =
        (Returns filename, cs', st'\<lparr>files := (files st')(filename \<mapsto> NoColumns)\<rparr>))"
proof (intro conjI impI)
  show "save_search_users_csv flatten in_columns keyword count filename cs st =
        (Returns filename, cs', st'\<lparr>files := (files st')(filename \<mapsto> NoColumns)\<rparr>)"
    if "search_users keyword count cs st = (Returns [], cs', st')"
      and "last_ok st' (''search_users:'' @ keyword) = None"
    using that by (simp add: save_search_users_csv_def cached_or_def cache_get_def)
qed (simp_all add: save_user_videos_csv_def save_hashtag_videos_csv_def
      save_video_comments_csv_def save_trending_videos_csv_def save_related_videos_csv_def
      save_sound_videos_csv_def save_playlist_videos_csv_def save_search_videos_csv_def
      save_user_info_csv_def save_sound_info_csv_def save_playlist_info_csv_def
      save_after_empty save_info_empty)

theorem save_with_nothing_overwrites_witness:
  "(let st0 = fresh_client\<lparr>files := (\<lambda>p. None)(''out.csv'' \<mapsto> Table [\<lambda>c. ''7''])\<rparr>;
        R = (\<lambda>v. Inr (\<lambda>c. StrCell ''x''));
        F = (\<lambda>v. Inr [\<lambda>c. StrCell ''x'']);
        C = (\<lambda>key df. True);
        gone = (\<lambda>r. fst r = Returns ''out.csv''
                  \<and> files (snd (snd r)) ''out.csv'' = Some NoColumns)
    in gone (save_user_videos_csv R ''u'' 5 ''out.csv'' [unsigned_ctx] st0)
     \<and> gone (save_hashtag_videos_csv R ''h'' 5 ''out.csv'' [unsigned_ctx] st0)
     \<and> gone (save_video_comments_csv (\<lambda>vid. R) ''42'' 5 (Some ''out.csv'') [unsigned_ctx] st0)
     \<and> gone (save_trending_videos_csv R 5 ''out.csv'' [unsigned_ctx] st0)
     \<and> gone (save_related_videos_csv R ''42'' 5 ''out.csv'' [unsigned_ctx] st0)
     \<and> gone (save_sound_videos_csv R ''s'' 5 ''out.csv'' [unsigned_ctx] st0)
     \<and> gone (save_playlist_videos_csv R ''p'' 5 ''out.csv'' [unsigned_ctx] st0)
     \<and> gone (save_search_videos_csv R ''k'' 5 ''out.csv'' [unsigned_ctx] st0)
     \<and> gone (save_search_users_csv F C ''k'' 5 ''out.csv'' [unsigned_ctx] st0)
     \<and> gone (save_user_info_csv F C ''u'' ''out.csv'' [unsigned_ctx] st0)
     \<and> gone (save_sound_info_csv F C ''s'' ''out.csv'' [unsigned_ctx] st0)
     \<and> gone (save_playlist_info_csv F C ''p'' ''out.csv'' [unsigned_ctx] st0))"
proof -
  define st0 where "st0 = fresh_client\<lparr>files := (\<lambda>p. None)(''out.csv'' \<mapsto> Table [\<lambda>c. ''7''])\<rparr>"
  define R :: "json \<Rightarrow> error + row" where "R = (\<lambda>v. Inr (\<lambda>c. StrCell ''x''))"
  define F :: "json \<Rightarrow> error + row list" where "F = (\<lambda>v. Inr [\<lambda>c. StrCell ''x''])"
  define C :: "string \<Rightarrow> row list \<Rightarrow> bool" where "C = (\<lambda>key df. True)"
  note ev = fetch_api_unsigned live_def cache_set_def note_call_def fresh_client_def st0_def
  obtain s1 where g1: "get_user_videos ''u'' 5 [unsigned_ctx] st0 = (Returns [], [], s1)"
    and n1: "last_ok s1 (''user_videos:'' @ norm_username ''u'') = None"
    by (simp add: get_user_videos_def get_user_info_def ev)
  obtain s2 where g2: "get_hashtag_videos ''h'' 5 [unsigned_ctx] st0 = (Returns [], [], s2)"
    and n2: "last_ok s2 (''hashtag_videos:'' @ norm_hashtag ''h'') = None"
    by (simp add: get_hashtag_videos_def ev)
  obtain s3 where g3: "get_video_comments ''42'' 5 [unsigned_ctx] st0 = (Returns [], [], s3)"
    and n3: "last_ok s3 (''video_comments:'' @ video_id_of ''42'') = None"
    by (simp add: get_video_comments_def slice_to_def ev)
  obtain s4 where g4: "get_trending_videos 5 [unsigned_ctx] st0 = (Returns (JArr []), [], s4)"
    and n4: "last_ok s4 ''trending'' = None"
    by (simp add: get_trending_videos_def first_page_def ev)
  obtain s5 where g5: "get_related_videos ''42'' 5 [unsigned_ctx] st0 = (Returns (JArr []), [], s5)"
    and n5: "last_ok s5 (''related_videos:'' @ video_id_of ''42'') = None"
    by (simp add: get_related_videos_def first_page_def ev)
  obtain s6 where g6: "get_sound_videos ''s'' 5 [unsigned_ctx] st0 = (Returns [], [], s6)"
    and n6: "last_ok s6 (''sound_videos:'' @ ''s'') = None"
    by (simp add: get_sound_videos_def slice_to_def ev)
  obtain s7 where g7: "get_playlist_videos ''p'' 5 [unsigned_ctx] st0 = (Returns [], [], s7)"
    and n7: "last_ok s7 (''playlist_videos:'' @ ''p'') = None"
    by (simp add: get_playlist_videos_def slice_to_def ev)
  obtain s8 where g8: "search_videos ''k'' 5 [unsigned_ctx] st0 = (Returns [], [], s8)"
    and n8: "last_ok s8 (''search_videos:'' @ ''k'') = None"
    by (simp add: search_videos_def slice_to_def ev)
  obtain s9 where g9: "search_users ''k'' 5 [unsigned_ctx] st0 = (Returns [], [], s9)"
    and n9: "last_ok s9 (''search_users:'' @ ''k'') = None"
    by (simp add: search_users_def ev)
  obtain s10 d10 where g10: "get_user_info ''u'' [unsigned_ctx] st0 = (Returns d10, [], s10)"
    and n10: "live d10 = None"
    by (simp add: get_user_info_def ev)
  obtain s11 d11 where g11: "get_sound_info ''s'' [unsigned_ctx] st0 = (Returns d11, [], s11)"
    and n11: "live d11 = None"
    by (simp add: get_sound_info_def ev)
  obtain s12 d12 where g12: "get_playlist_info ''p'' [unsigned_ctx] st0 = (Returns d12, [], s12)"
    and n12: "live d12 = None"
    by (simp add: get_playlist_info_def ev)
  note t = save_with_nothing_overwrites[where count = 5 and cs = "[unsigned_ctx]" and st = st0
      and cs' = "[]" and row_of = R and filename = "''out.csv''" and username = "''u''"
      and hashtag = "''h''" and sound_id = "''s''" and playlist_id = "''p''"
      and video_id = "''42''" and crow_of = "\<lambda>vid. R" and given = "Some ''out.csv''"
      and keyword = "''k''" and flatten = F and in_columns = C]
  have 1: "save_user_videos_csv R ''u'' 5 ''out.csv'' [unsigned_ctx] st0 =
        (Returns ''out.csv'', [], s1\<lparr>files := (files s1)(''out.csv'' \<mapsto> NoColumns)\<rparr>)"
    using t[where st' = s1, THEN conjunct1, THEN mp, THEN mp, OF g1 n1] by simp
  have 2: "save_hashtag_videos_csv R ''h'' 5 ''out.csv'' [unsigned_ctx] st0 =
        (Returns ''out.csv'', [], s2\<lparr>files := (files s2)(''out.csv'' \<mapsto> NoColumns)\<rparr>)"
    using t[where st' = s2, THEN conjunct2, THEN conjunct1, THEN mp, THEN mp, OF g2 n2] by simp
  have 3: "save_video_comments_csv (\<lambda>vid. R) ''42'' 5 (Some ''out.csv'') [unsigned_ctx] st0 =
        (Returns ''out.csv'', [], s3\<lparr>files := (files s3)(''out.csv'' \<mapsto> NoColumns)\<rparr>)"
    using t[where st' = s3, THEN conjunct2, THEN conjunct2, THEN conjunct1, THEN mp, THEN mp, OF g3 n3] by simp
  have 4: "save_trending_videos_csv R 5 ''out.csv'' [unsigned_ctx] st0 =
        (Returns ''out.csv'', [], s4\<lparr>files := (files s4)(''out.csv'' \<mapsto> NoColumns)\<rparr>)"
    using t[where st' = s4, THEN conjunct2, THEN conjunct2, THEN conjunct2, THEN conjunct1, THEN mp, THEN mp, OF g4 n4] by simp
  have 5: "save_related_videos_csv R ''42'' 5 ''out.csv'' [unsigned_ctx] st0 =
        (Returns ''out.csv'', [], s5\<lparr>files := (files s5)(''out.csv'' \<mapsto> NoColumns)\<rparr>)"
    using t[where st' = s5, THEN conjunct2, THEN conjunct2, THEN conjunct2, THEN conjunct2, THEN conjunct1, THEN mp, THEN mp, OF g5 n5] by simp
  have 6: "save_sound_videos_csv R ''s'' 5 ''out.csv'' [unsigned_ctx] st0 =
        (Returns ''out.csv'', [], s6\<lparr>files := (files s6)(''out.csv'' \<mapsto> NoColumns)\<rparr>)"
    using t[where st' = s6, THEN conjunct2, THEN conjunct2, THEN conjunct2, THEN conjunct2, THEN conjunct2, THEN conjunct1, THEN mp, THEN mp, OF g6 n6] by simp
  have 7: "save_playlist_videos_csv R ''p'' 5 ''out.csv'' [unsigned_ctx] st0 =
        (Returns ''out.csv'', [], s7\<lparr>files := (files s7)(''out.csv'' \<mapsto> NoColumns)\<rparr>)"
    using t[where st' = s7, THEN conjunct2, THEN conjunct2, THEN conjunct2, THEN conjunct2, THEN conjunct2, THEN conjunct2, THEN conjunct1, THEN mp, THEN mp, OF g7 n7] by simp
  have 8: "save_search_videos_csv R ''k'' 5 ''out.csv'' [unsigned_ctx] st0 =
        (Returns ''out.csv'', [], s8\<lparr>files := (files s8)(''out.csv'' \<mapsto> NoColumns)\<rparr>)"
    using t[where st' = s8, THEN conjunct2, THEN conjunct2, THEN conjunct2, THEN conjunct2, THEN conjunct2, THEN conjunct2, THEN conjunct2, THEN conjunct1, THEN mp, THEN mp, OF g8 n8] by simp
  have 9: "save_search_users_csv F C ''k'' 5 ''out.csv'' [unsigned_ctx] st0 =
        (Returns ''out.csv'', [], s9\<lparr>files := (files s9)(''out.csv'' \<mapsto> NoColumns)\<rparr>)"
    using t[where st' = s9, THEN conjunct2, THEN conjunct2, THEN conjunct2, THEN conjunct2, THEN conjunct2, THEN conjunct2, THEN conjunct2, THEN conjunct2, THEN conjunct1, THEN mp, THEN mp, OF g9 n9] by simp
  have 10: "save_user_info_csv F C ''u'' ''out.csv'' [unsigned_ctx] st0 =
        (Returns ''out.csv'', [], s10\<lparr>files := (files s10)(''out.csv'' \<mapsto> NoColumns)\<rparr>)"
    using t[where st' = s10 and data = d10, THEN conjunct2, THEN conjunct2, THEN conjunct2, THEN conjunct2, THEN conjunct2, THEN conjunct2, THEN conjunct2, THEN conjunct2, THEN conjunct2, THEN conjunct1, THEN mp, THEN mp, OF g10 n10] by simp
  have 11: "save_sound_info_csv F C ''s'' ''out.csv'' [unsigned_ctx] st0 =
        (Returns ''out.csv'', [], s11\<lparr>files := (files s11)(''out.csv'' \<mapsto> NoColumns)\<rparr>)"
    using t[where st' = s11 and data = d11, THEN conjunct2, THEN conjunct2, THEN conjunct2, THEN conjunct2, THEN conjunct2, THEN conjunct2, THEN conjunct2, THEN conjunct2, THEN conjunct2, THEN conjunct2, THEN conjunct1, THEN mp, THEN mp, OF g11 n11] by simp
  have 12: "save_playlist_info_csv F C ''p'' ''out.csv'' [unsigned_ctx] st0 =
        (Returns ''out.csv'', [], s12\<lparr>files := (files s12)(''out.csv'' \<mapsto> NoColumns)\<rparr>)"
    using t[where st' = s12 and data = d12, THEN conjunct2, THEN conjunct2, THEN conjunct2, THEN conjunct2, THEN conjunct2, THEN conjunct2, THEN conjunct2, THEN conjunct2, THEN conjunct2, THEN conjunct2, THEN conjunct2, THEN mp, THEN mp, OF g12 n12] by simp
  show ?thesis
    unfolding Let_def st0_def[symmetric] R_def[symmetric] F_def[symmetric] C_def[symmetric]
    by (simp add: 1 2 3 4 5 6 7 8 9 10 11 12)
qed


section \<open>The result cache\<close>

lemma cache_set_stores_only_nonempty:
  "cache_set key None st = st"
  "cache_set key (Some (JArr [])) st = st"
  "cache_set key (Some (JObj [])) st = st"
  "v \<noteq> JArr [] \<Longrightarrow> v \<noteq> JObj [] \<Longrightarrow> cache_get key d (cache_set key (Some v) st) = v"
  by (auto simp: cache_set_def cache_get_def split: json.splits list.splits)

lemma accepted_simps [simp]:
  "accepted ''user_detail'' ((''userInfo'', v) # kvs)"
  "accepted ''hashtag_detail'' ((''challengeInfo'', v) # kvs)"
  "accepted ''user_videos'' ((''itemList'', v) # kvs)"
  "accepted ''hashtag_videos'' ((''itemList'', v) # kvs)"
  "accepted ''sound_videos'' ((''itemList'', v) # kvs)"
  "accepted ''playlist_videos'' ((''itemList'', v) # kvs)"
  "accepted ''video_comments'' ((''comments'', v) # kvs)"
  "accepted ''search_general'' ((''data'', v) # kvs)"
  by (simp_all add: accepted_def expected_keys_def)


text \<open>
  Claim C7. The cache keeps only non-empty values (the lemma above), and the save
  helpers fall back on it. But \<^verbatim>\<open>get_user_videos\<close> returns from inside its loop at
  the failure cap, before the call of \<^verbatim>\<open>_cache_set\<close>: a listing call that returned
  two videos after one good page and four failed calls has cached nothing, and the save
  helper whose own fetch then fails finds no entry and writes the column-less file over
  the rows on disk. (\<^verbatim>\<open>get_sound_videos\<close> and \<^verbatim>\<open>get_playlist_videos\<close> leave
  their loop with \<^verbatim>\<open>break\<close> and do cache the partial list.)
\<close>

theorem partial_result_at_cap_is_not_cached:
  "(let info = JObj [(''userInfo'', JObj [(''user'', JObj [(''secUid'', JStr ''S'')])])];
        v1 = JObj [(''id'', JStr ''1'')];
        v2 = JObj [(''id'', JStr ''2'')];
        page = JObj [(''itemList'', JArr [v1, v2]), (''hasMore'', JBool True), (''cursor'', JNum 2)];
        first = get_user_videos ''u'' 5
                  [page_ctx info, page_ctx page, unsigned_ctx, unsigned_ctx, unsigned_ctx,
                   unsigned_ctx] fresh_client;
        st1 = (snd (snd first))\<lparr>files := (\<lambda>p. None)(''out.csv'' \<mapsto> Table [\<lambda>c. ''1''])\<rparr>;
        second = save_user_videos_csv (\<lambda>v. Inr (\<lambda>c. StrCell ''x'')) ''u'' 5 ''out.csv''
                   [unsigned_ctx] st1
    in fst first = Returns [v1, v2]
     \<and> last_ok (snd (snd first)) ''user_videos:u'' = None
     \<and> fst second = Returns ''out.csv''
     \<and> files (snd (snd second)) ''out.csv'' = Some NoColumns)"
  by (simp add: Let_def get_user_videos_def get_user_info_def save_user_videos_csv_def
      fetch_api_unsigned fetch_api_page live_def cache_set_def cache_get_def note_call_def
      fresh_client_def read_page_def dict_get_def max_consecutive_failures_def invalidate_def
      slice_to_def save_items_def save_after_def cached_or_def user_videos_params_def)


section \<open>A failed call inside a listing loop\<close>

lemma call_fails_live: "call_fails key c \<Longrightarrow> \<exists>r. fetch_api key c = Inr r \<and> live r = None"
  by (auto simp: call_fails_def split: sum.splits)

lemma user_videos_loop_failed_call:
  assumes "call_fails ''user_videos'' c" "int (length videos) < count"
    "Suc fails < max_consecutive_failures"
  shows "user_videos_loop sec_uid count videos cursor fails (c # cs) st =
         user_videos_loop sec_uid count videos cursor (Suc fails) cs
           (invalidate (note_call ''user_videos'' (user_videos_params sec_uid cursor) st))"
  using assms call_fails_live[OF assms(1)] by auto

lemma hashtag_loop_failed_call:
  assumes "call_fails ''hashtag_videos'' c" "int (length videos) < count"
    "Suc blocked_retries \<le> max_blocked_retries"
  shows "hashtag_loop challenge_id hashtag count videos cursor blocked_retries (c # cs) st =
         hashtag_loop challenge_id hashtag count videos cursor (Suc blocked_retries) cs
           (invalidate (note_call ''hashtag_videos'' (hashtag_params challenge_id hashtag cursor) st))"
  using assms call_fails_live[OF assms(1)] by auto

lemma invalidate_note_call:
  "known_endpoint key \<Longrightarrow>
   \<not> memo (invalidate (note_call key params st)) \<and>
   derived (invalidate (note_call key params st)) = (if memo st then derived st else Suc (derived st))"
  by (simp add: invalidate_def note_call_def)

lemma user_videos_loop_failed_calls:
  assumes "list_all (call_fails ''user_videos'') failing" "failing \<noteq> []"
    "fails + length failing < max_consecutive_failures" "int (length videos) < count"
  shows "\<exists>st'. user_videos_loop sec_uid count videos cursor fails (failing @ cs) st =
              user_videos_loop sec_uid count videos cursor (fails + length failing) cs st'
            \<and> \<not> memo st'
            \<and> derived st' = (if memo st then derived st + length failing - 1
                             else derived st + length failing)"
  using assms
proof (induction failing arbitrary: fails st)
  case Nil
  then show ?case by simp
next
  case (Cons c rest)
  let ?st1 = "invalidate (note_call ''user_videos'' (user_videos_params sec_uid cursor) st)"
  from Cons.prems have step:
    "user_videos_loop sec_uid count videos cursor fails ((c # rest) @ cs) st =
     user_videos_loop sec_uid count videos cursor (Suc fails) (rest @ cs) ?st1"
    using user_videos_loop_failed_call[of c videos count fails sec_uid cursor "rest @ cs" st]
    by simp
  have m1: "\<not> memo ?st1"
    and d1: "derived ?st1 = (if memo st then derived st else Suc (derived st))"
    using invalidate_note_call[of "''user_videos''"] by simp_all
  show ?case
  proof (cases "rest = []")
    case True
    with step m1 d1 show ?thesis by (intro exI[of _ ?st1]) auto
  next
    case False
    with Cons.prems Cons.IH[of "Suc fails" ?st1]
    obtain st' where
      "user_videos_loop sec_uid count videos cursor (Suc fails) (rest @ cs) ?st1 =
         user_videos_loop sec_uid count videos cursor (Suc fails + length rest) cs st'"
      "\<not> memo st'" "derived st' = derived ?st1 + length rest"
      using m1 by auto
    with step d1 False show ?thesis by (intro exI[of _ st']) auto
  qed
qed

lemma hashtag_loop_failed_calls:
  assumes "list_all (call_fails ''hashtag_videos'') failing" "failing \<noteq> []"
    "blocked_retries + length failing \<le> max_blocked_retries" "int (length videos) < count"
  shows "\<exists>st'. hashtag_loop challenge_id hashtag count videos cursor blocked_retries (failing @ cs) st =
              hashtag_loop challenge_id hashtag count videos cursor
                (blocked_retries + length failing) cs st'
            \<and> \<not> memo st'
            \<and> derived st' = (if memo st then derived st + length failing - 1
                             else derived st + length failing)"
  using assms
proof (induction failing arbitrary: blocked_retries st)
  case Nil
  then show ?case by simp
next
  case (Cons c rest)
  let ?st1 = "invalidate (note_call ''hashtag_videos'' (hashtag_params challenge_id hashtag cursor) st)"
  from Cons.prems have step:
    "hashtag_loop challenge_id hashtag count videos cursor blocked_retries ((c # rest) @ cs) st =
     hashtag_loop challenge_id hashtag count videos cursor (Suc blocked_retries) (rest @ cs) ?st1"
    using hashtag_loop_failed_call[of c videos count blocked_retries challenge_id hashtag cursor
        "rest @ cs" st]
    by simp
  have m1: "\<not> memo ?st1"
    and d1: "derived ?st1 = (if memo st then derived st else Suc (derived st))"
    using invalidate_note_call[of "''hashtag_videos''"] by simp_all
  show ?case
  proof (cases "rest = []")
    case True
    with step m1 d1 show ?thesis by (intro exI[of _ ?st1]) auto
  next
    case False
    with Cons.prems Cons.IH[of "Suc blocked_retries" ?st1]
    obtain st' where
      "hashtag_loop challenge_id hashtag count videos cursor (Suc blocked_retries) (rest @ cs) ?st1 =
         hashtag_loop challenge_id hashtag count videos cursor
           (Suc blocked_retries + length rest) cs st'"
      "\<not> memo st'" "derived st' = derived ?st1 + length rest"
      using m1 by auto
    with step d1 False show ?thesis by (intro exI[of _ st']) auto
  qed
qed

lemma fetch_api_empty_body: "known_endpoint key \<Longrightarrow> fetch_api key empty_body_ctx = Inr None"
  by (auto simp: known_endpoint_def fetch_api_def fetch_api_attempts_def empty_body_ctx_def
      max_sign_attempts_def max_retries_def eval_nat_numeral)


subsection \<open>The session parameters\<close>

text \<open>
  One refused call is enough for the session parameters to be dropped. The listing of a
  hashtag whose first page is refused with status 100002 (one attempt, no retry inside
  \<^verbatim>\<open>fetch_api\<close>) and whose second call succeeds: the parameters are derived for the
  first call of the run and again for the call after the refusal, twice in all.
\<close>

theorem single_blocked_call_invalidates_session:
  "(let detail = JObj [(''challengeInfo'', JObj [(''challenge'', JObj [(''id'', JStr ''7'')])])];
        refusal = JObj [(''statusCode'', JNum 100002)];
        v = JObj [(''id'', JStr ''1'')];
        page = JObj [(''itemList'', JArr [v]), (''hasMore'', JBool False)];
        run = get_hashtag_videos ''h'' 5 [page_ctx detail, page_ctx refusal, page_ctx page]
                fresh_client
    in fetch_api_attempts ''hashtag_videos'' (page_ctx refusal) = (Inr None, 1)
     \<and> fst run = Returns [v]
     \<and> map fst (calls (snd (snd run))) = [''hashtag_detail'', ''hashtag_videos'', ''hashtag_videos'']
     \<and> derived (snd (snd run)) = 2)"
  by (simp add: Let_def get_hashtag_videos_def fetch_api_page fetch_api_page_blocked
      fetch_api_attempts_def page_ctx_def HIDDEN_API_ENDPOINTS_def max_sign_attempts_def
      max_retries_def eval_nat_numeral accepted_def blocked_def expected_keys_def
      live_def cache_set_def note_call_def fresh_client_def read_page_def dict_get_def
      max_blocked_retries_def invalidate_def slice_to_def hashtag_params_def fetch_api_def)


text \<open>
  Claim C6, as the loops are written. In \<^verbatim>\<open>get_user_videos\<close> and
  \<^verbatim>\<open>get_hashtag_videos\<close> every failed call that does not reach the cap is followed
  by dropping the memoized session parameters, the first failure included: after any
  non-empty run of failed calls below the cap the loop goes on with the parameters unset,
  and each of those calls but the first (every one of them when the parameters were unset
  at the start) had to derive them anew.
\<close>

theorem failed_calls_invalidate_session:
  "(list_all (call_fails ''user_videos'') failing \<longrightarrow> failing \<noteq> [] \<longrightarrow>
      fails + length failing < max_consecutive_failures \<longrightarrow> int (length videos) < count \<longrightarrow>
      (\<exists>st'. user_videos_loop sec_uid count videos cursor fails (failing @ cs) st =
              user_videos_loop sec_uid count videos cursor (fails + length failing) cs st'
            \<and> \<not> memo st'
            \<and> derived st' = (if memo st then derived st + length failing - 1
                             else derived st + length failing)))
   \<and> (list_all (call_fails ''hashtag_videos'') failing \<longrightarrow> failing \<noteq> [] \<longrightarrow>
      blocked_retries + length failing \<le> max_blocked_retries \<longrightarrow> int (length videos) < count \<longrightarrow>
      (\<exists>st'. hashtag_loop challenge_id hashtag count videos cursor blocked_retries (failing @ cs) st =
              hashtag_loop challenge_id hashtag count videos cursor
                (blocked_retries + length failing) cs st'
            \<and> \<not> memo st'
            \<and> derived st' = (if memo st then derived st + length failing - 1
                             else derived st + length failing)))"
  using user_videos_loop_failed_calls[of failing fails videos count sec_uid cursor cs st]
    hashtag_loop_failed_calls[of failing blocked_retries videos count challenge_id hashtag cursor cs st]
  by (intro conjI impI)

theorem failed_calls_invalidate_session_witness:
  "list_all (call_fails ''user_videos'') [unsigned_ctx, empty_body_ctx]
   \<and> (\<exists>st'. user_videos_loop (JStr ''S'') 5 [] (JNum 0) 0
               ([unsigned_ctx, empty_body_ctx] @ [unsigned_ctx]) fresh_client =
              user_videos_loop (JStr ''S'') 5 [] (JNum 0) 2 [unsigned_ctx] st'
            \<and> \<not> memo st' \<and> derived st' = 2)
   \<and> list_all (call_fails ''hashtag_videos'') [unsigned_ctx, empty_body_ctx]
   \<and> (\<exists>st'. hashtag_loop (JStr ''7'') ''h'' 5 [] (JNum 0) 0
               ([unsigned_ctx, empty_body_ctx] @ [unsigned_ctx]) fresh_client =
              hashtag_loop (JStr ''7'') ''h'' 5 [] (JNum 0) 2 [unsigned_ctx] st'
            \<and> \<not> memo st' \<and> derived st' = 2)"
proof -
  note e = fetch_api_empty_body
  have u: "list_all (call_fails ''user_videos'') [unsigned_ctx, empty_body_ctx]"
    by (simp add: call_fails_def fetch_api_unsigned e live_def)
  have h: "list_all (call_fails ''hashtag_videos'') [unsigned_ctx, empty_body_ctx]"
    by (simp add: call_fails_def fetch_api_unsigned e live_def)
  note t = failed_calls_invalidate_session[where failing = "[unsigned_ctx, empty_body_ctx]"
      and fails = 0 and blocked_retries = 0 and videos = "[]" and count = 5
      and cs = "[unsigned_ctx]" and st = fresh_client and cursor = "JNum 0"]
  have 1: "\<exists>st'. user_videos_loop (JStr ''S'') 5 [] (JNum 0) 0
               ([unsigned_ctx, empty_body_ctx] @ [unsigned_ctx]) fresh_client =
              user_videos_loop (JStr ''S'') 5 [] (JNum 0) 2 [unsigned_ctx] st'
            \<and> \<not> memo st' \<and> derived st' = 2"
    using t[where sec_uid = "JStr ''S''", THEN conjunct1] u
    by (simp add: max_consecutive_failures_def fresh_client_def numeral_2_eq_2 del: user_videos_loop.simps)
  have 2: "\<exists>st'. hashtag_loop (JStr ''7'') ''h'' 5 [] (JNum 0) 0
               ([unsigned_ctx, empty_body_ctx] @ [unsigned_ctx]) fresh_client =
              hashtag_loop (JStr ''7'') ''h'' 5 [] (JNum 0) 2 [unsigned_ctx] st'
            \<and> \<not> memo st' \<and> derived st' = 2"
    using t[where challenge_id = "JStr ''7''" and hashtag = "''h''", THEN conjunct2] h
    by (simp add: max_blocked_retries_def fresh_client_def numeral_2_eq_2 del: hashtag_loop.simps)
  from u 1 h 2 show ?thesis by (intro conjI)
qed


section \<open>The caps on attempts and on failed calls\<close>










subsection \<open>What is returned at a cap\<close>






subsection \<open>A refused hashtag listing\<close>





end
